theory Spec2Isabelle
  imports Main "HOL-Library.Word" "HOL-Library.Sublist"
begin

unbundle bit_operations_syntax

section \<open>Python values used by the backend\<close>

text \<open>
  A Python \<open>str\<close> is a sequence of Unicode code points and \<open>len\<close> counts code points,
  so a string is a list of code points (natural numbers); \<open>bytes\<close> is a list of
  8-bit words. \<open>ustr\<close> turns an ASCII literal into such a string.
\<close>

type_synonym ustr = "nat list"
type_synonym byte = "8 word"

definition ustr :: "string \<Rightarrow> ustr" where
  "ustr s = map of_char s"

text \<open>
  The exceptions that the code raises or catches. \<open>requests.Timeout\<close> is a subclass of
  \<open>requests.RequestException\<close>; the handler tests for it first, so the two are
  separate constructors. \<open>OtherError\<close> stands for every other subclass of
  \<open>Exception\<close> (\<open>socket.gaierror\<close>, \<open>zipfile.BadZipFile\<close>, ...). The string is
  what \<open>str(e)\<close> gives, for \<open>HTTPException\<close> its \<open>detail\<close>.
\<close>

datatype exn =
    HTTPException nat ustr
  | Timeout ustr
  | RequestException ustr
  | ValueError ustr
  | UnicodeDecodeError ustr
  | OtherError ustr

fun str_of_exn :: "exn \<Rightarrow> ustr" where
  "str_of_exn (HTTPException c d) = d"
| "str_of_exn (Timeout m) = m"
| "str_of_exn (RequestException m) = m"
| "str_of_exn (ValueError m) = m"
| "str_of_exn (UnicodeDecodeError m) = m"
| "str_of_exn (OtherError m) = m"

subsection \<open>Whitespace, \<open>str.strip\<close> and \<open>str.split\<close>\<close>

text \<open>The code points for which \<open>str.isspace\<close> holds; \<open>strip()\<close> and \<open>split()\<close> use them.\<close>

definition py_isspace :: "nat \<Rightarrow> bool" where
  "py_isspace c \<longleftrightarrow>
     (9 \<le> c \<and> c \<le> 13) \<or> (28 \<le> c \<and> c \<le> 32) \<or> c = 133 \<or> c = 160 \<or> c = 5760 \<or>
     (8192 \<le> c \<and> c \<le> 8202) \<or> c = 8232 \<or> c = 8233 \<or> c = 8239 \<or> c = 8287 \<or> c = 12288"

definition lstrip :: "ustr \<Rightarrow> ustr" where
  "lstrip s = dropWhile py_isspace s"

definition rstrip :: "ustr \<Rightarrow> ustr" where
  "rstrip s = rev (dropWhile py_isspace (rev s))"

definition strip :: "ustr \<Rightarrow> ustr" where
  "strip s = rstrip (lstrip s)"

text \<open>
  \<open>s.split()\<close> without a separator: runs of whitespace separate the words and no
  empty word is produced. \<open>cur\<close> holds the word being read, reversed.
\<close>

fun split_ws_aux :: "ustr \<Rightarrow> ustr \<Rightarrow> ustr list" where
  "split_ws_aux cur [] = (if cur = [] then [] else [rev cur])"
| "split_ws_aux cur (c # cs) =
     (if py_isspace c
      then (if cur = [] then split_ws_aux [] cs else rev cur # split_ws_aux [] cs)
      else split_ws_aux (c # cur) cs)"

definition split_ws :: "ustr \<Rightarrow> ustr list" where
  "split_ws s = split_ws_aux [] s"

subsection \<open>Numbers as text\<close>

text \<open>\<open>str(n)\<close> for a natural number, as in the f-string \<open>f"Chapter {chapter_num}"\<close>.\<close>

fun str_of_nat :: "nat \<Rightarrow> ustr" where
  "str_of_nat n = (if n < 10 then [48 + n] else str_of_nat (n div 10) @ [48 + n mod 10])"

declare str_of_nat.simps [simp del]

text \<open>The \<open>k\<close> lowest hexadecimal digits of a number, in lower case (\<open>%02x\<close> for \<open>k = 2\<close>).\<close>

definition hex_digit :: "nat \<Rightarrow> nat" where
  "hex_digit d = (if d < 10 then 48 + d else 87 + d)"

fun hex :: "nat \<Rightarrow> nat \<Rightarrow> ustr" where
  "hex 0 n = []"
| "hex (Suc k) n = hex k (n div 16) @ [hex_digit (n mod 16)]"

subsection \<open>Decoding bytes\<close>

definition is_cont :: "nat \<Rightarrow> bool" where
  "is_cont b \<longleftrightarrow> 128 \<le> b \<and> b \<le> 191"

text \<open>
  \<open>bytes.decode('utf-8')\<close> in strict mode, on the byte values: \<open>None\<close> is
  \<open>UnicodeDecodeError\<close>. Overlong forms, surrogates and code points above
  \<open>0x10FFFF\<close> are rejected.
\<close>

fun utf8_dec :: "nat list \<Rightarrow> ustr option" where
  "utf8_dec [] = Some []"
| "utf8_dec (b0 # bs) =
     (if b0 < 128 then map_option ((#) b0) (utf8_dec bs)
      else if 194 \<le> b0 \<and> b0 \<le> 223 then
        (case bs of
           b1 # r \<Rightarrow>
             if is_cont b1
             then map_option ((#) ((b0 - 192) * 64 + (b1 - 128))) (utf8_dec r)
             else None
         | _ \<Rightarrow> None)
      else if 224 \<le> b0 \<and> b0 \<le> 239 then
        (case bs of
           b1 # b2 # r \<Rightarrow>
             (let cp = (b0 - 224) * 4096 + (b1 - 128) * 64 + (b2 - 128)
              in if is_cont b1 \<and> is_cont b2 \<and> 2048 \<le> cp \<and> \<not> (55296 \<le> cp \<and> cp \<le> 57343)
                 then map_option ((#) cp) (utf8_dec r)
                 else None)
         | _ \<Rightarrow> None)
      else if 240 \<le> b0 \<and> b0 \<le> 244 then
        (case bs of
           b1 # b2 # b3 # r \<Rightarrow>
             (let cp = (b0 - 240) * 262144 + (b1 - 128) * 4096 + (b2 - 128) * 64 + (b3 - 128)
              in if is_cont b1 \<and> is_cont b2 \<and> is_cont b3 \<and> 65536 \<le> cp \<and> cp \<le> 1114111
                 then map_option ((#) cp) (utf8_dec r)
                 else None)
         | _ \<Rightarrow> None)
      else None)"

text \<open>
  The error of the strict decoder: the position at which decoding stops, the number of
  bytes it reports, the byte at that position and the reason. A byte that follows a
  lead byte is a valid second byte when it is a continuation byte and does not start
  an overlong form, a surrogate or a code point above \<open>0x10FFFF\<close>.
\<close>

definition second_ok :: "nat \<Rightarrow> nat \<Rightarrow> bool" where
  "second_ok b0 b1 \<longleftrightarrow>
     is_cont b1 \<and> (b0 \<noteq> 224 \<or> 160 \<le> b1) \<and> (b0 \<noteq> 237 \<or> b1 \<le> 159) \<and>
     (b0 \<noteq> 240 \<or> 144 \<le> b1) \<and> (b0 \<noteq> 244 \<or> b1 \<le> 143)"

datatype utf8_reason = InvalidStart | InvalidContinuation | UnexpectedEnd

fun utf8_error :: "nat \<Rightarrow> nat list \<Rightarrow> (nat \<times> nat \<times> nat \<times> utf8_reason) option" where
  "utf8_error i [] = None"
| "utf8_error i (b0 # bs) =
     (if b0 < 128 then utf8_error (i + 1) bs
      else if b0 < 194 \<or> 244 < b0 then Some (i, 1, b0, InvalidStart)
      else (case bs of
              [] \<Rightarrow> Some (i, 1, b0, UnexpectedEnd)
            | b1 # r1 \<Rightarrow>
                if b0 < 224 then
                  (if is_cont b1 then utf8_error (i + 2) r1
                   else Some (i, 1, b0, InvalidContinuation))
                else if \<not> second_ok b0 b1 then Some (i, 1, b0, InvalidContinuation)
                else (case r1 of
                        [] \<Rightarrow> Some (i, 2, b0, UnexpectedEnd)
                      | b2 # r2 \<Rightarrow>
                          if \<not> is_cont b2 then Some (i, 2, b0, InvalidContinuation)
                          else if b0 < 240 then utf8_error (i + 3) r2
                          else (case r2 of
                                  [] \<Rightarrow> Some (i, 3, b0, UnexpectedEnd)
                                | b3 # r3 \<Rightarrow>
                                    if is_cont b3 then utf8_error (i + 4) r3
                                    else Some (i, 3, b0, InvalidContinuation)))))"

fun utf8_reason_text :: "utf8_reason \<Rightarrow> ustr" where
  "utf8_reason_text InvalidStart = ustr ''invalid start byte''"
| "utf8_reason_text InvalidContinuation = ustr ''invalid continuation byte''"
| "utf8_reason_text UnexpectedEnd = ustr ''unexpected end of data''"

text \<open>\<open>str(e)\<close> of the \<open>UnicodeDecodeError\<close>.\<close>

definition utf8_message :: "nat list \<Rightarrow> ustr" where
  "utf8_message bs =
     (case utf8_error 0 bs of
        None \<Rightarrow> []
      | Some (i, n, b, reason) \<Rightarrow>
          if n = 1
          then [39] @ ustr ''utf-8'' @ [39] @ ustr '' codec can'' @ [39] @ ustr ''t decode byte 0x'' @
               hex 2 b @ ustr '' in position '' @ str_of_nat i @ ustr '': '' @
               utf8_reason_text reason
          else [39] @ ustr ''utf-8'' @ [39] @ ustr '' codec can'' @ [39] @
               ustr ''t decode bytes in position '' @ str_of_nat i @ ustr ''-'' @
               str_of_nat (i + n - 1) @ ustr '': '' @ utf8_reason_text reason)"

definition decode_utf8 :: "byte list \<Rightarrow> exn + ustr" where
  "decode_utf8 content =
     (case utf8_dec (map unat content) of
        None \<Rightarrow> Inl (UnicodeDecodeError (utf8_message (map unat content)))
      | Some s \<Rightarrow> Inr s)"

text \<open>\<open>bytes.decode('latin-1')\<close> maps every byte to the code point of the same value.\<close>

definition decode_latin1 :: "byte list \<Rightarrow> exn + ustr" where
  "decode_latin1 content = Inr (map unat content)"

subsection \<open>Other string operations of the code\<close>

definition endswith :: "ustr \<Rightarrow> ustr \<Rightarrow> bool" where
  "endswith s suf \<longleftrightarrow> suffix suf s"

text \<open>\<open>sub in s\<close> on strings: \<open>sub\<close> occurs in \<open>s\<close> as a contiguous piece.\<close>

fun contains :: "ustr \<Rightarrow> ustr \<Rightarrow> bool" where
  "contains [] sub = (sub = [])"
| "contains (c # cs) sub = (prefix sub (c # cs) \<or> contains cs sub)"

text \<open>
  \<open>s.split(sep)\<close> for a separator that is not empty (the code passes literals only):
  the pieces between the occurrences of \<open>sep\<close>, read from the left. The result is
  never the empty list. \<open>cur\<close> is the piece being read, reversed.
\<close>

function split_on :: "ustr \<Rightarrow> ustr \<Rightarrow> ustr \<Rightarrow> ustr list" where
  "split_on sep cur [] = [rev cur]"
| "split_on sep cur (c # cs) =
     (if sep \<noteq> [] \<and> prefix sep (c # cs)
      then rev cur # split_on sep [] (drop (length sep) (c # cs))
      else split_on sep (c # cur) cs)"
  by pat_completeness auto
termination
  by (relation "measure (\<lambda>(sep, cur, s). length s)") auto

definition py_split :: "ustr \<Rightarrow> ustr \<Rightarrow> ustr list" where
  "py_split s sep = split_on sep [] s"

text \<open>\<open>xs[-1]\<close> and \<open>xs[0]\<close>: \<open>IndexError\<close> on the empty list.\<close>

definition last_item :: "'a list \<Rightarrow> exn + 'a" where
  "last_item xs = (if xs = [] then Inl (OtherError (ustr ''list index out of range'')) else Inr (last xs))"

definition first_item :: "'a list \<Rightarrow> exn + 'a" where
  "first_item xs = (case xs of [] \<Rightarrow> Inl (OtherError (ustr ''list index out of range'')) | x # _ \<Rightarrow> Inr x)"

text \<open>
  \<open>str.splitlines\<close>: a line ends at \<open>\n\<close>, \<open>\r\<close>, \<open>\r\n\<close> or one of the other
  line boundaries; the boundaries are dropped and no empty last line is produced.
\<close>

definition is_linebreak :: "nat \<Rightarrow> bool" where
  "is_linebreak c \<longleftrightarrow> (10 \<le> c \<and> c \<le> 13) \<or> (28 \<le> c \<and> c \<le> 30) \<or> c = 133 \<or> c = 8232 \<or> c = 8233"

fun splitlines_aux :: "ustr \<Rightarrow> ustr \<Rightarrow> ustr list" where
  "splitlines_aux cur [] = (if cur = [] then [] else [rev cur])"
| "splitlines_aux cur [c] = (if is_linebreak c then [rev cur] else [rev (c # cur)])"
| "splitlines_aux cur (c # d # cs) =
     (if c = 13 \<and> d = 10 then rev cur # splitlines_aux [] cs
      else if is_linebreak c then rev cur # splitlines_aux [] (d # cs)
      else splitlines_aux (c # cur) (d # cs))"

definition splitlines :: "ustr \<Rightarrow> ustr list" where
  "splitlines s = splitlines_aux [] s"

text \<open>\<open>sep.join(xs)\<close>.\<close>

fun join :: "ustr \<Rightarrow> ustr list \<Rightarrow> ustr" where
  "join sep [] = []"
| "join sep [x] = x"
| "join sep (x # y # xs) = x @ sep @ join sep (y # xs)"

section \<open>The data model\<close>

text \<open>
  \<open>class Chapter\<close>: the constructor (\<open>Chapter_init\<close>) stores title and text and computes
  \<open>word_count = len(text.split())\<close>.
\<close>

record Chapter =
  title :: ustr
  "text" :: ustr
  word_count :: nat

definition Chapter_init :: "ustr \<Rightarrow> ustr \<Rightarrow> Chapter" where
  "Chapter_init t x = \<lparr> title = t, text = x, word_count = length (split_ws x) \<rparr>"

section \<open>The plain-text parser\<close>

text \<open>
  \<open>parse_txt_file\<close>: UTF-8 first; on \<open>UnicodeDecodeError\<close> Latin-1; any failure of
  that second decoding raises \<open>HTTPException(400, "Unable to decode text file")\<close>.
  Then the text is stripped; an empty text raises \<open>HTTPException(400, "File is empty")\<close>.
\<close>

definition parse_txt_file :: "byte list \<Rightarrow> exn + Chapter list" where
  "parse_txt_file content =
     (case (case decode_utf8 content of
              Inr t \<Rightarrow> Inr t
            | Inl (UnicodeDecodeError m) \<Rightarrow>
                (case decode_latin1 content of
                   Inr t \<Rightarrow> Inr t
                 | Inl e \<Rightarrow> Inl (HTTPException 400 (ustr ''Unable to decode text file'')))
            | Inl e \<Rightarrow> Inl e) of
        Inl e \<Rightarrow> Inl e
      | Inr t \<Rightarrow>
          (let t' = strip t
           in if t' = [] then Inl (HTTPException 400 (ustr ''File is empty''))
              else Inr [Chapter_init (ustr ''Untitled'') t']))"


section \<open>The environment of a request\<close>

subsection \<open>Addresses and networks (\<open>ipaddress\<close>)\<close>

datatype ip_address = IPv4Address "32 word" | IPv6Address "128 word"

text \<open>A network is its network address and its netmask.\<close>

datatype ip_network = IPv4Network "32 word" "32 word" | IPv6Network "128 word" "128 word"

definition ip4 :: "nat \<Rightarrow> nat \<Rightarrow> nat \<Rightarrow> nat \<Rightarrow> 32 word" where
  "ip4 a b c d = of_nat (((a * 256 + b) * 256 + c) * 256 + d)"

definition net4 :: "32 word \<Rightarrow> nat \<Rightarrow> ip_network" where
  "net4 a n = IPv4Network a (push_bit (32 - n) (- 1))"

definition net6 :: "128 word \<Rightarrow> nat \<Rightarrow> ip_network" where
  "net6 a n = IPv6Network a (push_bit (128 - n) (- 1))"

text \<open>
  \<open>addr in network\<close>: \<open>False\<close> when the versions differ, else
  \<open>addr & netmask == network_address\<close>.
\<close>

fun in_network :: "ip_address \<Rightarrow> ip_network \<Rightarrow> bool" where
  "in_network (IPv4Address a) (IPv4Network n m) = (a AND m = n)"
| "in_network (IPv6Address a) (IPv6Network n m) = (a AND m = n)"
| "in_network _ _ = False"

subsection \<open>What the code reaches through its libraries\<close>

text \<open>
  The resolver is \<open>getaddrinfo\<close>: for a host name it raises or gives the addresses of
  the name, of both families, in the order in which the system returns them (the
  system sorts them; the order is not that of the DNS answer).
\<close>

type_synonym resolver = "ustr \<Rightarrow> exn + ip_address list"

text \<open>
  A response of \<open>requests.get(url, stream=True)\<close>, as the code reads it:
  \<open>raise_for_status()\<close> (the exception it raises, if any), the two headers the code
  looks up, and the body, which is not read before the code iterates over it. The body
  is what the connection delivers: pieces of bytes as they arrive, or an exception.
\<close>

record Response =
  raise_for_status :: "exn option"
  header_content_length :: "ustr option"
  header_content_type :: "ustr option"
  raw_stream :: "(exn + byte list) list"

text \<open>
  An item of a book as the loop of the EPUB parser reads it: \<open>get_type()\<close>,
  \<open>get_content()\<close> (which builds the bytes of the document and may raise) and
  \<open>get_name()\<close> (\<open>None\<close> when the item has no name).
\<close>

datatype item_type = ITEM_DOCUMENT | ITEM_OTHER

record epub_item =
  get_type :: item_type
  get_content :: "exn + byte list"
  get_name :: "ustr option"

text \<open>
  The environment of a request. The world: the resolver, the HTTP client, the EPUB
  reader (\<open>epub.read_epub\<close>, on the content of the file it is given) and the HTML
  parser (\<open>get_text\<close>: the text of a document once its \<open>script\<close> and \<open>style\<close>
  elements are removed, or an exception). And the parts of Python's library that rest
  on the tables of Unicode or on a parser of their own, each consulted only where the
  comment of its use says so: \<open>str.lower\<close> on a string that is not ASCII, the decimal
  value and the printability of a code point above 127, the normalization
  \<open>NFKC\<close>, and \<open>ipaddress.ip_address\<close> on a string.
\<close>

record env =
  dns :: resolver
  requests_get :: "ustr \<Rightarrow> exn + Response"
  read_epub :: "byte list \<Rightarrow> exn + epub_item list"
  get_text :: "ustr \<Rightarrow> exn + ustr"
  str_lower :: "ustr \<Rightarrow> ustr"
  todecimal :: "nat \<Rightarrow> nat option"
  isprintable :: "nat \<Rightarrow> bool"
  nfkc :: "ustr \<Rightarrow> ustr"
  ip_address_of :: "ustr \<Rightarrow> exn + ip_address"

subsection \<open>\<open>str.lower\<close>, \<open>repr\<close> and \<open>int\<close>\<close>

text \<open>\<open>s.lower()\<close>: computed on an ASCII string, taken from the library otherwise.\<close>

definition lower_chr :: "nat \<Rightarrow> nat" where
  "lower_chr c = (if 65 \<le> c \<and> c \<le> 90 then c + 32 else c)"

definition lower :: "env \<Rightarrow> ustr \<Rightarrow> ustr" where
  "lower ev s = (if list_all (\<lambda>c. c < 128) s then map lower_chr s else str_lower ev s)"

text \<open>
  \<open>repr(s)\<close> of a string: double quotes when the string holds a single quote and no
  double quote, else single quotes; the quote and the backslash are escaped, and so is
  every code point that is not printable.
\<close>

definition repr_chr :: "env \<Rightarrow> nat \<Rightarrow> nat \<Rightarrow> ustr" where
  "repr_chr ev quote c =
     (if c = quote \<or> c = 92 then [92, c]
      else if c = 9 then [92, 116]
      else if c = 10 then [92, 110]
      else if c = 13 then [92, 114]
      else if c < 32 \<or> c = 127 then [92, 120] @ hex 2 c
      else if c < 127 then [c]
      else if isprintable ev c then [c]
      else if c < 256 then [92, 120] @ hex 2 c
      else if c < 65536 then [92, 117] @ hex 4 c
      else [92, 85] @ hex 8 c)"

definition py_repr :: "env \<Rightarrow> ustr \<Rightarrow> ustr" where
  "py_repr ev s =
     (let quote = (if 39 \<in> set s \<and> 34 \<notin> set s then 34 else 39)
      in [quote] @ concat (map (repr_chr ev quote) s) @ [quote])"

definition is_digit :: "nat \<Rightarrow> bool" where
  "is_digit c \<longleftrightarrow> 48 \<le> c \<and> c \<le> 57"

definition ascii_space :: "nat \<Rightarrow> bool" where
  "ascii_space c \<longleftrightarrow> (9 \<le> c \<and> c \<le> 13) \<or> c = 32"

text \<open>
  \<open>int(s)\<close> on a string. First every code point above 127 becomes a space when it
  is whitespace, its ASCII digit when it is a decimal digit, and \<open>?\<close> otherwise. Then
  ASCII whitespace is skipped, a sign may follow, then the run of digits and
  underscores is read: it must be digits with single underscores between them. More
  than 4300 digits raise the error of the digit limit. After the run only ASCII
  whitespace may follow. Every other error is \<open>invalid literal\<close>, with the \<open>repr\<close> of
  the string cut to 200 characters.
\<close>

fun int_body_ok :: "ustr \<Rightarrow> bool" where
  "int_body_ok [] = False"
| "int_body_ok [c] = is_digit c"
| "int_body_ok (c # d # r) =
     (is_digit c \<and> (if d = 95 then int_body_ok r else int_body_ok (d # r)))"

definition digits_value :: "ustr \<Rightarrow> nat" where
  "digits_value ds = foldl (\<lambda>a c. a * 10 + (c - 48)) 0 ds"

definition int_transform :: "env \<Rightarrow> ustr \<Rightarrow> ustr" where
  "int_transform ev s =
     map (\<lambda>c. if c \<le> 127 then c
              else if py_isspace c then 32
              else (case todecimal ev c of Some d \<Rightarrow> 48 + d | None \<Rightarrow> 63)) s"

definition py_int :: "env \<Rightarrow> ustr \<Rightarrow> exn + int" where
  "py_int ev s =
     (let u = dropWhile ascii_space (int_transform ev s);
          neg = (take 1 u = [45]);
          v = (if take 1 u = [45] \<or> take 1 u = [43] then drop 1 u else u);
          run = takeWhile (\<lambda>c. is_digit c \<or> c = 95) v;
          rest = dropWhile (\<lambda>c. is_digit c \<or> c = 95) v;
          ds = filter is_digit run;
          invalid = ValueError (ustr ''invalid literal for int() with base 10: '' @
                                take 200 (py_repr ev s))
      in if \<not> int_body_ok run then Inl invalid
         else if length ds > 4300
         then Inl (ValueError
                (ustr ''Exceeds the limit (4300 digits) for integer string conversion: value has '' @
                 str_of_nat (length ds) @
                 ustr '' digits; use sys.set_int_max_str_digits() to increase the limit''))
         else if dropWhile ascii_space rest \<noteq> [] then Inl invalid
         else Inr (if neg then - int (digits_value ds) else int (digits_value ds)))"

section \<open>The URL validator\<close>

definition PRIVATE_IP_RANGES :: "ip_network list" where
  "PRIVATE_IP_RANGES =
     [ net4 (ip4 127 0 0 0) 8,
       net4 (ip4 10 0 0 0) 8,
       net4 (ip4 172 16 0 0) 12,
       net4 (ip4 192 168 0 0) 16,
       net4 (ip4 169 254 0 0) 16,
       net6 1 128,
       net6 (push_bit 112 0xfe80) 10 ]"

subsection \<open>Name resolution (\<open>socket\<close>)\<close>

text \<open>
  \<open>socket.gethostbyname\<close> asks the resolver for the IPv4 addresses of the name and
  returns the first one it is given; it raises when the resolver raises or the name
  has no IPv4 address. It returns the address as dotted text, which the code hands to
  \<open>ipaddress.ip_address\<close>; that text is always well formed, so the model passes the
  address itself.
\<close>

fun is_ipv4 :: "ip_address \<Rightarrow> bool" where
  "is_ipv4 (IPv4Address a) = True"
| "is_ipv4 (IPv6Address a) = False"

definition gethostbyname :: "resolver \<Rightarrow> ustr \<Rightarrow> exn + ip_address" where
  "gethostbyname getaddrinfo hostname =
     (case getaddrinfo hostname of
        Inl e \<Rightarrow> Inl e
      | Inr addrs \<Rightarrow>
          (case filter is_ipv4 addrs of
             [] \<Rightarrow> Inl (OtherError (ustr ''[Errno -2] Name or service not known''))
           | a # _ \<Rightarrow> Inr a))"

text \<open>
  \<open>is_private_ip\<close>: the two literal names, then the lookup and the loop over the
  ranges; every exception gives \<open>True\<close>.
\<close>

definition is_private_ip :: "env \<Rightarrow> ustr \<Rightarrow> bool" where
  "is_private_ip ev hostname =
     (if lower ev hostname \<in> set [ustr ''localhost'', ustr ''0.0.0.0''] then True
      else (case gethostbyname (dns ev) hostname of
              Inl e \<Rightarrow> True
            | Inr ip_obj \<Rightarrow> list_ex (in_network ip_obj) PRIVATE_IP_RANGES))"

subsection \<open>Parsing the URL (\<open>urllib.parse\<close>)\<close>

text \<open>
  \<open>urlparse\<close>. Leading control characters and spaces are dropped, then tab, CR and
  LF anywhere. The scheme is what stands before the first colon when that is a letter
  followed by scheme characters; it is lowered. After \<open>//\<close> the network location
  runs up to the next \<open>/\<close>, \<open>?\<close> or \<open>#\<close>; an unpaired bracket in it raises
  \<open>ValueError\<close>, and so does a bracketed host that is neither an IPv6 address nor of
  the form \<open>v<hex>.<text>\<close>. The fragment is cut at the first \<open>#\<close>, then the query at
  the first \<open>?\<close>. A network location that is not ASCII is checked under \<open>NFKC\<close>.
  Last, for a scheme that uses parameters, the parameters are cut from the last
  segment of the path at its first \<open>;\<close>.
\<close>

record ParseResult =
  scheme :: ustr
  netloc :: ustr
  path :: ustr
  params :: ustr
  query :: ustr
  fragment :: ustr

definition is_alpha :: "nat \<Rightarrow> bool" where
  "is_alpha c \<longleftrightarrow> (65 \<le> c \<and> c \<le> 90) \<or> (97 \<le> c \<and> c \<le> 122)"

definition is_scheme_chr :: "nat \<Rightarrow> bool" where
  "is_scheme_chr c \<longleftrightarrow> is_alpha c \<or> is_digit c \<or> c = 43 \<or> c = 45 \<or> c = 46"

definition is_hex :: "nat \<Rightarrow> bool" where
  "is_hex c \<longleftrightarrow> is_digit c \<or> (65 \<le> c \<and> c \<le> 70) \<or> (97 \<le> c \<and> c \<le> 102)"

definition uses_params :: "ustr list" where
  "uses_params =
     map ustr ['''', ''ftp'', ''hdl'', ''prospero'', ''http'', ''imap'', ''https'', ''shttp'',
               ''rtsp'', ''rtspu'', ''sip'', ''sips'', ''mms'', ''sftp'', ''tel'']"

definition split_scheme :: "ustr \<Rightarrow> ustr \<times> ustr" where
  "split_scheme url =
     (let s = takeWhile (\<lambda>c. c \<noteq> 58) url
      in if s \<noteq> [] \<and> length s < length url \<and> is_alpha (hd s) \<and> list_all is_scheme_chr s
         then (map lower_chr s, drop (Suc (length s)) url)
         else ([], url))"

text \<open>\<open>_check_bracketed_host\<close>: the exception it raises, if any.\<close>

definition check_bracketed_host :: "env \<Rightarrow> ustr \<Rightarrow> exn option" where
  "check_bracketed_host ev h =
     (if take 1 h = [118]
      then (let r = dropWhile is_hex (drop 1 h)
            in if takeWhile is_hex (drop 1 h) \<noteq> [] \<and> take 1 r = [46] \<and> drop 1 r \<noteq> [] \<and>
                  10 \<notin> set (drop 1 r)
               then None
               else Some (ValueError (ustr ''IPvFuture address is invalid'')))
      else (case ip_address_of ev h of
              Inl e \<Rightarrow> Some e
            | Inr (IPv4Address a) \<Rightarrow>
                Some (ValueError (ustr ''An IPv4 address cannot be in brackets''))
            | Inr (IPv6Address a) \<Rightarrow> None))"

text \<open>\<open>_checknetloc\<close>: the exception it raises, if any.\<close>

definition checknetloc :: "env \<Rightarrow> ustr \<Rightarrow> exn option" where
  "checknetloc ev loc =
     (if loc = [] \<or> list_all (\<lambda>c. c < 128) loc then None
      else (let n = filter (\<lambda>c. c \<noteq> 64 \<and> c \<noteq> 58 \<and> c \<noteq> 35 \<and> c \<noteq> 63) loc;
                netloc2 = nfkc ev n
            in if n = netloc2 then None
               else if list_ex (\<lambda>c. c \<in> set netloc2) [47, 63, 35, 64, 58]
               then Some (ValueError (ustr ''netloc '' @ [39] @ loc @ [39] @
                            ustr '' contains invalid characters under NFKC normalization''))
               else None))"

text \<open>\<open>_splitparams\<close>, called on a path that holds a \<open>;\<close>.\<close>

definition splitparams :: "ustr \<Rightarrow> ustr \<times> ustr" where
  "splitparams url =
     (if 47 \<in> set url
      then (let seg = rev (takeWhile (\<lambda>c. c \<noteq> 47) (rev url));
                front = take (length url - length seg) url
            in if 59 \<notin> set seg then (url, [])
               else (front @ takeWhile (\<lambda>c. c \<noteq> 59) seg, drop 1 (dropWhile (\<lambda>c. c \<noteq> 59) seg)))
      else (takeWhile (\<lambda>c. c \<noteq> 59) url, drop 1 (dropWhile (\<lambda>c. c \<noteq> 59) url)))"

definition urlparse :: "env \<Rightarrow> ustr \<Rightarrow> exn + ParseResult" where
  "urlparse ev url0 =
     (let url1 = filter (\<lambda>c. c \<noteq> 9 \<and> c \<noteq> 10 \<and> c \<noteq> 13) (dropWhile (\<lambda>c. c \<le> 32) url0);
          (sch, url2) = split_scheme url1;
          has_netloc = (take 2 url2 = ustr ''//'');
          loc = (if has_netloc
                 then takeWhile (\<lambda>c. c \<noteq> 47 \<and> c \<noteq> 63 \<and> c \<noteq> 35) (drop 2 url2) else []);
          url3 = (if has_netloc
                  then dropWhile (\<lambda>c. c \<noteq> 47 \<and> c \<noteq> 63 \<and> c \<noteq> 35) (drop 2 url2) else url2);
          bracketed = takeWhile (\<lambda>c. c \<noteq> 93) (drop 1 (dropWhile (\<lambda>c. c \<noteq> 91) loc));
          frag = drop 1 (dropWhile (\<lambda>c. c \<noteq> 35) url3);
          url4 = takeWhile (\<lambda>c. c \<noteq> 35) url3;
          qry = drop 1 (dropWhile (\<lambda>c. c \<noteq> 63) url4);
          url5 = takeWhile (\<lambda>c. c \<noteq> 63) url4;
          (pth, prm) = (if sch \<in> set uses_params \<and> 59 \<in> set url5 then splitparams url5
                        else (url5, []))
      in if (91 \<in> set loc) \<noteq> (93 \<in> set loc)
         then Inl (ValueError (ustr ''Invalid IPv6 URL''))
         else (case (if 91 \<in> set loc then check_bracketed_host ev bracketed else None) of
                 Some e \<Rightarrow> Inl e
               | None \<Rightarrow>
                   (case checknetloc ev loc of
                      Some e \<Rightarrow> Inl e
                    | None \<Rightarrow>
                        Inr \<lparr> scheme = sch, netloc = loc, path = pth, params = prm,
                              query = qry, fragment = frag \<rparr>)))"

text \<open>
  The \<open>hostname\<close> property: what follows the last \<open>@\<close> of the network location,
  inside the brackets when there is an opening bracket, else up to the first colon;
  \<open>None\<close> when that is empty. It is lowered up to its first \<open>%\<close>.
\<close>

definition hostname :: "env \<Rightarrow> ParseResult \<Rightarrow> ustr option" where
  "hostname ev p =
     (let hostinfo = rev (takeWhile (\<lambda>c. c \<noteq> 64) (rev (netloc p)));
          h = (if 91 \<in> set hostinfo
               then takeWhile (\<lambda>c. c \<noteq> 93) (drop 1 (dropWhile (\<lambda>c. c \<noteq> 91) hostinfo))
               else takeWhile (\<lambda>c. c \<noteq> 58) hostinfo)
      in if h = [] then None
         else Some (lower ev (takeWhile (\<lambda>c. c \<noteq> 37) h) @ dropWhile (\<lambda>c. c \<noteq> 37) h))"

subsection \<open>\<open>validate_url\<close>\<close>

definition validate_url :: "env \<Rightarrow> ustr \<Rightarrow> bool \<times> ustr" where
  "validate_url ev url =
     (case urlparse ev url of
        Inl e \<Rightarrow> (False, str_of_exn e)
      | Inr parsed \<Rightarrow>
          if scheme parsed \<notin> set [ustr ''http'', ustr ''https'']
          then (False, ustr ''Only HTTP and HTTPS protocols are allowed'')
          else (case hostname ev parsed of
                  None \<Rightarrow> (False, ustr ''Invalid URL'')
                | Some h \<Rightarrow>
                    if is_private_ip ev h
                    then (False, ustr ''Private IPs and localhost are not allowed for security reasons'')
                    else (True, [])))"

section \<open>Format detection and text extraction\<close>

definition detect_format :: "env \<Rightarrow> ustr \<Rightarrow> ustr option \<Rightarrow> exn + ustr" where
  "detect_format ev filename content_type =
     (let filename_lower = lower ev filename
      in if endswith filename_lower (ustr ''.txt'') then Inr (ustr ''txt'')
         else if endswith filename_lower (ustr ''.epub'') then Inr (ustr ''epub'')
         else (case content_type of
                 Some ct \<Rightarrow>
                   if ct \<noteq> [] \<and> contains ct (ustr ''text/plain'') then Inr (ustr ''txt'')
                   else if ct \<noteq> [] \<and> contains ct (ustr ''epub'') then Inr (ustr ''epub'')
                   else Inl (HTTPException 400 (ustr ''Unsupported file format. Supported: .txt, .epub''))
               | None \<Rightarrow>
                   Inl (HTTPException 400 (ustr ''Unsupported file format. Supported: .txt, .epub''))))"

text \<open>
  \<open>extract_text_from_html\<close>. The HTML parser is the environment's; the whitespace
  clean-up is the code's: strip every line, split it at double spaces, strip the
  pieces, and join the pieces that are not empty with one space.
\<close>

definition clean_up_whitespace :: "ustr \<Rightarrow> ustr" where
  "clean_up_whitespace txt =
     (let lines = map strip (splitlines txt);
          chunks = concat (map (\<lambda>line. map strip (py_split line (ustr ''  ''))) lines)
      in join (ustr '' '') (filter (\<lambda>chunk. chunk \<noteq> []) chunks))"

definition extract_text_from_html :: "env \<Rightarrow> ustr \<Rightarrow> exn + ustr" where
  "extract_text_from_html ev html =
     (case get_text ev html of
        Inl e \<Rightarrow> Inl e
      | Inr txt \<Rightarrow> Inr (clean_up_whitespace txt))"

section \<open>The EPUB parser\<close>

text \<open>
  The temporary directory is state: the files that exist, with their contents.
  \<open>NamedTemporaryFile(delete=False)\<close> creates a file under a name not in use, the
  \<open>with\<close> block writes the content and closes it, and the file stays until
  \<open>os.unlink\<close> removes it.
\<close>

type_synonym filesystem = "(nat \<times> byte list) list"

definition file_exists :: "filesystem \<Rightarrow> nat \<Rightarrow> bool" where
  "file_exists fs p \<longleftrightarrow> p \<in> set (map fst fs)"

definition NamedTemporaryFile :: "filesystem \<Rightarrow> byte list \<Rightarrow> filesystem \<times> nat" where
  "NamedTemporaryFile fs content =
     (let tmp_path = Suc (fold max (map fst fs) 0) in ((tmp_path, content) # fs, tmp_path))"

definition unlink :: "nat \<Rightarrow> filesystem \<Rightarrow> filesystem" where
  "unlink p fs = filter (\<lambda>f. fst f \<noteq> p) fs"

definition chapter_title :: "ustr option \<Rightarrow> nat \<Rightarrow> ustr" where
  "chapter_title name chapter_num =
     (case name of
        None \<Rightarrow> ustr ''Chapter '' @ str_of_nat chapter_num
      | Some t \<Rightarrow>
          if t = [] \<or> endswith t (ustr ''.html'') \<or> endswith t (ustr ''.xhtml'')
          then ustr ''Chapter '' @ str_of_nat chapter_num
          else t)"

text \<open>
  The first two statements of the loop body for a document:
  \<open>item.get_content().decode('utf-8')\<close> and \<open>extract_text_from_html\<close>. Each of the
  three steps may raise.
\<close>

definition document_text :: "env \<Rightarrow> epub_item \<Rightarrow> exn + ustr" where
  "document_text ev item =
     (case get_content item of
        Inl e \<Rightarrow> Inl e
      | Inr content \<Rightarrow>
          (case decode_utf8 content of
             Inl e \<Rightarrow> Inl e
           | Inr html_content \<Rightarrow> extract_text_from_html ev html_content))"

text \<open>
  The loop over \<open>book.get_items()\<close>, with the variables \<open>chapters\<close> and
  \<open>chapter_num\<close> passed along; \<open>Inl\<close> is an exception raised inside the loop.
\<close>

fun epub_loop :: "env \<Rightarrow> epub_item list \<Rightarrow> Chapter list \<Rightarrow> nat \<Rightarrow> exn + Chapter list" where
  "epub_loop ev [] chapters chapter_num = Inr chapters"
| "epub_loop ev (item # items) chapters chapter_num =
     (if get_type item = ITEM_DOCUMENT
      then (case document_text ev item of
              Inl e \<Rightarrow> Inl e
            | Inr txt \<Rightarrow>
                if length (strip txt) < 100
                then epub_loop ev items chapters chapter_num
                else epub_loop ev items
                       (chapters @ [Chapter_init (chapter_title (get_name item) chapter_num) txt])
                       (chapter_num + 1))
      else epub_loop ev items chapters chapter_num)"

text \<open>
  The two \<open>except\<close> clauses of \<open>parse_epub_file\<close>: an \<open>HTTPException\<close> is raised
  again, any other exception becomes \<open>HTTPException(400, "Failed to parse EPUB file: ...")\<close>.
\<close>

definition epub_except :: "exn \<Rightarrow> exn" where
  "epub_except e =
     (case e of
        HTTPException c d \<Rightarrow> HTTPException c d
      | _ \<Rightarrow> HTTPException 400 (ustr ''Failed to parse EPUB file: '' @ str_of_exn e))"

definition parse_epub_file :: "env \<Rightarrow> filesystem \<Rightarrow> byte list \<Rightarrow> filesystem \<times> (exn + Chapter list)" where
  "parse_epub_file ev fs content =
     (let (fs1, tmp_path) = NamedTemporaryFile fs content
      in case read_epub ev content of
           Inl e \<Rightarrow> (fs1, Inl (epub_except e))
         | Inr items \<Rightarrow>
             (case epub_loop ev items [] 1 of
                Inl e \<Rightarrow> (fs1, Inl (epub_except e))
              | Inr chapters \<Rightarrow>
                  (let fs2 = unlink tmp_path fs1
                   in if chapters = []
                      then (fs2, Inl (HTTPException 400 (ustr ''No readable content found in EPUB file'')))
                      else (fs2, Inr chapters))))"

section \<open>The ingestion endpoint\<close>

definition MAX_FILE_SIZE :: nat where
  "MAX_FILE_SIZE = 50 * 1024 * 1024"

text \<open>
  The body of the request as \<open>request.json()\<close> gives it. A JSON object is kept as
  the list of its members in the order of the text; a later member of the same name
  replaces an earlier one.
\<close>

datatype json =
    JNull
  | JBool bool
  | JNum int
  | JStr ustr
  | JArr "json list"
  | JObj "(ustr \<times> json) list"

record Request =
  headers_content_type :: "ustr option"
  request_json :: "exn + json"

record UploadFile =
  filename :: ustr
  content_type :: "ustr option"
  file_read :: "byte list"

text \<open>
  The first block of the handler: \<open>url_request\<close> is set only when the content type
  contains \<open>application/json\<close>, the body parses, it is an object with the key
  \<open>url\<close>, and \<open>URLRequest(url=...)\<close> accepts the value, which it does for a string.
  For every other body the test \<open>'url' in body\<close> is false or an exception is raised
  and swallowed by \<open>except Exception: pass\<close>.
\<close>

definition url_request_of :: "Request \<Rightarrow> ustr option" where
  "url_request_of request =
     (let content_type = (case headers_content_type request of None \<Rightarrow> [] | Some c \<Rightarrow> c)
      in if contains content_type (ustr ''application/json'')
         then (case request_json request of
                 Inl e \<Rightarrow> None
               | Inr (JObj members) \<Rightarrow>
                   (case map_of (rev members) (ustr ''url'') of
                      Some (JStr u) \<Rightarrow> Some u
                    | _ \<Rightarrow> None)
               | Inr _ \<Rightarrow> None)
         else None)"

text \<open>
  The dictionary that the handler returns: the failure shape with \<open>error\<close> and
  \<open>message\<close>, or the success shape with the chapters, \<open>total_words\<close>,
  \<open>source\<close> and \<open>format\<close>.
\<close>

datatype ProcessingResult =
    Failure ustr ustr
  | Success "Chapter list" nat ustr ustr

definition too_large :: ProcessingResult where
  "too_large = Failure (ustr ''File too large'') (ustr ''File exceeds 50MB limit'')"

text \<open>
  \<open>response.iter_content(chunk_size)\<close>: every piece that the connection delivers is
  handed on in chunks of \<open>chunk_size\<close> bytes, the last one of a piece with what is
  left; no empty chunk is yielded; an exception of the connection is raised where it
  stands.
\<close>

function chunks_of :: "nat \<Rightarrow> byte list \<Rightarrow> byte list list" where
  "chunks_of n xs =
     (if n = 0 \<or> xs = [] then [] else take n xs # chunks_of n (drop n xs))"
  by pat_completeness auto
termination
  by (relation "measure (\<lambda>(n, xs). length xs)") auto

declare chunks_of.simps [simp del]

definition iter_content :: "Response \<Rightarrow> nat \<Rightarrow> (exn + byte list) list" where
  "iter_content response chunk_size =
     concat (map (\<lambda>x. case x of Inl e \<Rightarrow> [Inl e]
                            | Inr piece \<Rightarrow> map Inr (chunks_of chunk_size piece))
                 (raw_stream response))"

text \<open>
  The loop \<open>for chunk in response.iter_content(chunk_size=8192)\<close>, over what the
  iterator yields. The result is the buffer \<open>content\<close> when the loop is left and how
  it is left: the stream is exhausted, the size test returns the failure, or the
  iterator raises.
\<close>

datatype loop_exit = Completed | TooLarge | Raised exn

fun read_loop :: "byte list \<Rightarrow> (exn + byte list) list \<Rightarrow> byte list \<times> loop_exit" where
  "read_loop content [] = (content, Completed)"
| "read_loop content (Inl e # rest) = (content, Raised e)"
| "read_loop content (Inr chunk # rest) =
     (if length (content @ chunk) > MAX_FILE_SIZE
      then (content @ chunk, TooLarge)
      else read_loop (content @ chunk) rest)"

text \<open>
  What leaves the \<open>try\<close> block of the URL mode: an exception, a dictionary that
  the handler returns at once, or the content and the format for the next stage.
\<close>

datatype fetched = Returned ProcessingResult | Fetched "byte list" ustr

text \<open>
  The body of the \<open>try\<close> block: the request, \<open>raise_for_status\<close>, the test
  \<open>content_length and int(content_length) > MAX_FILE_SIZE\<close> (\<open>length_check\<close>, where
  \<open>int\<close> may raise), the reading loop, and the detection of the format from the last
  piece of the URL.
\<close>

definition url_filename :: "ustr \<Rightarrow> exn + ustr" where
  "url_filename url =
     (case last_item (py_split url (ustr ''/'')) of
        Inl e \<Rightarrow> Inl e
      | Inr seg \<Rightarrow> first_item (py_split seg (ustr ''?'')))"

definition length_check :: "env \<Rightarrow> Response \<Rightarrow> exn + bool" where
  "length_check ev response =
     (case header_content_length response of
        None \<Rightarrow> Inr False
      | Some content_length \<Rightarrow>
          if content_length = [] then Inr False
          else (case py_int ev content_length of
                  Inl e \<Rightarrow> Inl e
                | Inr n \<Rightarrow> Inr (n > int MAX_FILE_SIZE)))"

definition fetch_body :: "env \<Rightarrow> ustr \<Rightarrow> exn + fetched" where
  "fetch_body ev url =
     (case requests_get ev url of
        Inl e \<Rightarrow> Inl e
      | Inr response \<Rightarrow>
          (case raise_for_status response of
             Some e \<Rightarrow> Inl e
           | None \<Rightarrow>
               (case length_check ev response of
                  Inl e \<Rightarrow> Inl e
                | Inr True \<Rightarrow> Inr (Returned too_large)
                | Inr False \<Rightarrow>
                    (case read_loop [] (iter_content response 8192) of
                       (content, Raised e) \<Rightarrow> Inl e
                     | (content, TooLarge) \<Rightarrow> Inr (Returned too_large)
                     | (content, Completed) \<Rightarrow>
                         (case url_filename url of
                            Inl e \<Rightarrow> Inl e
                          | Inr fname \<Rightarrow>
                              (case detect_format ev fname (header_content_type response) of
                                 Inl e \<Rightarrow> Inl e
                               | Inr file_format \<Rightarrow> Inr (Fetched content file_format)))))))"

text \<open>
  The \<open>except\<close> clauses of that block, in their order: \<open>requests.Timeout\<close>,
  \<open>requests.RequestException\<close>, \<open>HTTPException\<close>. Any other exception is not
  caught and leaves the handler.
\<close>

definition fetch :: "env \<Rightarrow> ustr \<Rightarrow> exn + fetched" where
  "fetch ev url =
     (case fetch_body ev url of
        Inr r \<Rightarrow> Inr r
      | Inl (Timeout m) \<Rightarrow>
          Inr (Returned (Failure (ustr ''Timeout'') (ustr ''Request timed out. Please try again.'')))
      | Inl (RequestException m) \<Rightarrow>
          Inr (Returned (Failure (ustr ''Fetch failed'') (ustr ''Failed to fetch URL: '' @ m)))
      | Inl (HTTPException c d) \<Rightarrow>
          Inr (Returned (Failure (ustr ''Invalid format'') d))
      | Inl e \<Rightarrow> Inl e)"

text \<open>
  The last \<open>try\<close> block: the parser for the format, then the response
  (\<open>respond\<close>: the success dictionary, or for an \<open>HTTPException\<close> the failure
  \<open>Parse error\<close>, for any other exception \<open>Processing error\<close>).
\<close>

definition respond ::
  "filesystem \<times> (exn + Chapter list) \<Rightarrow> ustr \<Rightarrow> ustr \<Rightarrow> filesystem \<times> ProcessingResult" where
  "respond parsed source file_format =
     (case parsed of
        (fs', Inr chapters) \<Rightarrow>
          (fs', Success chapters (sum_list (map word_count chapters)) source file_format)
      | (fs', Inl (HTTPException c d)) \<Rightarrow> (fs', Failure (ustr ''Parse error'') d)
      | (fs', Inl e) \<Rightarrow>
          (fs', Failure (ustr ''Processing error'')
                  (ustr ''Failed to process file: '' @ str_of_exn e)))"

definition parse_stage ::
  "env \<Rightarrow> filesystem \<Rightarrow> byte list \<Rightarrow> ustr \<Rightarrow> ustr \<Rightarrow> filesystem \<times> ProcessingResult" where
  "parse_stage ev fs content file_format source =
     (if file_format = ustr ''txt''
      then respond (fs, parse_txt_file content) source file_format
      else if file_format = ustr ''epub''
      then respond (parse_epub_file ev fs content) source file_format
      else (fs, Failure (ustr ''Unsupported format'')
                  (ustr ''Format '' @ [39] @ file_format @ [39] @ ustr '' is not supported'')))"

text \<open>
  \<open>process_file\<close>. \<open>Inl\<close> is an exception that leaves the handler; \<open>Inr\<close> is the
  dictionary it returns. The temporary directory is passed through.
\<close>

definition process_file ::
  "env \<Rightarrow> filesystem \<Rightarrow> Request \<Rightarrow> UploadFile option \<Rightarrow> filesystem \<times> (exn + ProcessingResult)" where
  "process_file ev fs request file =
     (case (case url_request_of request of
              None \<Rightarrow> None
            | Some u \<Rightarrow> if u = [] then None else Some u) of
        Some u \<Rightarrow>
          (let url = strip u;
               (is_valid, error_msg) = validate_url ev url
           in if \<not> is_valid then (fs, Inr (Failure (ustr ''Invalid URL'') error_msg))
              else (case fetch ev url of
                      Inl e \<Rightarrow> (fs, Inl e)
                    | Inr (Returned d) \<Rightarrow> (fs, Inr d)
                    | Inr (Fetched content file_format) \<Rightarrow>
                        (let (fs', d) = parse_stage ev fs content file_format url
                         in (fs', Inr d))))
      | None \<Rightarrow>
          (case file of
             Some f \<Rightarrow>
               (let content = file_read f
                in if length content > MAX_FILE_SIZE then (fs, Inr too_large)
                   else (case detect_format ev (filename f) (content_type f) of
                           Inl (HTTPException c d) \<Rightarrow>
                             (fs, Inr (Failure (ustr ''Invalid format'') d))
                         | Inl e \<Rightarrow> (fs, Inl e)
                         | Inr file_format \<Rightarrow>
                             (let (fs', d) = parse_stage ev fs content file_format (filename f)
                              in (fs', Inr d))))
           | None \<Rightarrow>
               (fs, Inr (Failure (ustr ''Missing input'')
                           (ustr ''Please provide either a URL or a file upload'')))))"

section \<open>Notions of the specification\<close>

text \<open>
  The decoded text of a plain-text input, in the specification's words: UTF-8, and
  when that fails the single-byte decoding.
\<close>

definition decode_text :: "byte list \<Rightarrow> ustr" where
  "decode_text content =
     (case utf8_dec (map unat content) of Some s \<Rightarrow> s | None \<Rightarrow> map unat content)"

text \<open>
  The number of whitespace-delimited tokens of a text: the number of places where a
  token starts, a character that is not whitespace and stands first or after
  whitespace. \<open>inw\<close> says that the place before is inside a token.
\<close>

fun token_count :: "bool \<Rightarrow> ustr \<Rightarrow> nat" where
  "token_count inw [] = 0"
| "token_count inw (c # cs) =
     (if py_isspace c then token_count False cs
      else (if inw then 0 else 1) + token_count True cs)"

text \<open>An address is blocked when it lies in one of the seven ranges.\<close>

definition blocked :: "ip_address \<Rightarrow> bool" where
  "blocked a \<longleftrightarrow> list_ex (in_network a) PRIVATE_IP_RANGES"

text \<open>
  The final path segment of a URL, in the specification's words: what follows the
  last \<open>/\<close> of the path component, which holds neither the query nor the fragment.
\<close>

definition final_path_segment :: "env \<Rightarrow> ustr \<Rightarrow> ustr option" where
  "final_path_segment ev url =
     (case urlparse ev url of
        Inl e \<Rightarrow> None
      | Inr p \<Rightarrow> Some (rev (takeWhile (\<lambda>c. c \<noteq> 47) (rev (path p)))))"




text \<open>
  The chapters of a book in the specification's words. Every document of the book can
  be read: its text is obtained without an exception. The normalized text of an item;
  the accepted items, the documents whose stripped text has 100 characters or more, in
  package order; and the chapters, the accepted items numbered from \<open>n\<close>, each titled
  by the title rule with its number.
\<close>

definition all_readable :: "env \<Rightarrow> epub_item list \<Rightarrow> bool" where
  "all_readable ev items \<longleftrightarrow>
     (\<forall>item\<in>set items. get_type item = ITEM_DOCUMENT \<longrightarrow>
        (\<exists>txt. document_text ev item = Inr txt))"

definition item_text :: "env \<Rightarrow> epub_item \<Rightarrow> ustr" where
  "item_text ev item = (case document_text ev item of Inr txt \<Rightarrow> txt | Inl e \<Rightarrow> [])"

definition accepted_items :: "env \<Rightarrow> epub_item list \<Rightarrow> epub_item list" where
  "accepted_items ev items =
     filter (\<lambda>item. get_type item = ITEM_DOCUMENT \<and> 100 \<le> length (strip (item_text ev item))) items"

definition numbered_chapters :: "env \<Rightarrow> nat \<Rightarrow> epub_item list \<Rightarrow> Chapter list" where
  "numbered_chapters ev n items =
     map (\<lambda>(k, item). Chapter_init (chapter_title (get_name item) k) (item_text ev item))
       (enumerate n (accepted_items ev items))"

text \<open>
  The failure of walking a book: the exception of the first document, in package
  order, whose text cannot be obtained; \<open>None\<close> when every document can be read.
\<close>

definition walk_failure :: "env \<Rightarrow> epub_item list \<Rightarrow> exn option" where
  "walk_failure ev items =
     (case filter (\<lambda>item. get_type item = ITEM_DOCUMENT \<and> isl (document_text ev item)) items of
        [] \<Rightarrow> None
      | item # _ \<Rightarrow> (case document_text ev item of Inl e \<Rightarrow> Some e | Inr txt \<Rightarrow> None))"

section \<open>Example environments\<close>

text \<open>
  Resolvers. One answers every name with one public address, one with the IPv6
  loopback address and a public IPv4 address, one with a public and then a private
  IPv4 address, one with one private address; for the last every lookup fails.
\<close>

definition dns_public :: resolver where
  "dns_public h = Inr [IPv4Address (ip4 93 184 216 34)]"

definition dns_dual_stack :: resolver where
  "dns_dual_stack h = Inr [IPv6Address 1, IPv4Address (ip4 93 184 216 34)]"

definition dns_public_private :: resolver where
  "dns_public_private h = Inr [IPv4Address (ip4 93 184 216 34), IPv4Address (ip4 10 0 0 5)]"

definition dns_intranet :: resolver where
  "dns_intranet h = Inr [IPv4Address (ip4 192 168 1 10)]"

definition dns_failing :: resolver where
  "dns_failing h = Inl (OtherError (ustr ''[Errno -2] Name or service not known''))"

text \<open>
  The basic environment: every name is public, every request is refused, the EPUB
  reader rejects every file, and the HTML parser gives back the markup as text. Its
  library parts stand for Python's on ASCII input without a bracketed host, where
  Python's are not consulted or act as these do.
\<close>

definition env0 :: env where
  "env0 =
     \<lparr> dns = dns_public,
       requests_get = (\<lambda>url. Inl (RequestException (ustr ''connection refused''))),
       read_epub = (\<lambda>content. Inl (OtherError (ustr ''File is not a zip file''))),
       get_text = (\<lambda>html. Inr html),
       str_lower = (\<lambda>s. s),
       todecimal = (\<lambda>c. None),
       isprintable = (\<lambda>c. True),
       nfkc = (\<lambda>s. s),
       ip_address_of = (\<lambda>s. Inl (ValueError (ustr ''not an IPv4 or IPv6 address''))) \<rparr>"

text \<open>
  A response with status 200, the given \<open>Content-Length\<close> header and the given
  pieces of body, and the environment whose HTTP client answers every request with a
  given response.
\<close>

definition response_of :: "ustr option \<Rightarrow> (exn + byte list) list \<Rightarrow> Response" where
  "response_of cl stream =
     \<lparr> raise_for_status = None, header_content_length = cl,
       header_content_type = Some (ustr ''text/plain''), raw_stream = stream \<rparr>"

definition env_of :: "Response \<Rightarrow> env" where
  "env_of r = env0 \<lparr> requests_get := (\<lambda>url. Inr r) \<rparr>"

text \<open>
  Four documents: one of 50 characters, one of 500 characters named \<open>ch2.xhtml\<close>,
  one whose content is not UTF-8, and one whose content cannot be built.
  \<open>two_items\<close> is the book of the first two; \<open>env_book\<close> is the environment whose
  EPUB reader gives the book it is built from.
\<close>

definition short_item :: epub_item where
  "short_item =
     \<lparr> get_type = ITEM_DOCUMENT, get_content = Inr (replicate 50 97),
       get_name = Some (ustr ''toc.xhtml'') \<rparr>"

definition long_item :: epub_item where
  "long_item =
     \<lparr> get_type = ITEM_DOCUMENT, get_content = Inr (replicate 500 97),
       get_name = Some (ustr ''ch2.xhtml'') \<rparr>"

definition bad_item :: epub_item where
  "bad_item =
     \<lparr> get_type = ITEM_DOCUMENT, get_content = Inr [255], get_name = Some (ustr ''ch3.xhtml'') \<rparr>"

definition broken_item :: epub_item where
  "broken_item =
     \<lparr> get_type = ITEM_DOCUMENT, get_content = Inl (OtherError (ustr ''Document is empty'')),
       get_name = Some (ustr ''ch4.xhtml'') \<rparr>"

definition two_items :: "epub_item list" where
  "two_items = [short_item, long_item]"

definition env_book :: "epub_item list \<Rightarrow> env" where
  "env_book items = env0 \<lparr> read_epub := (\<lambda>content. Inr items) \<rparr>"

section \<open>Evaluation\<close>

lemmas str_defs = ustr_def lower_def lower_chr_def strip_def lstrip_def rstrip_def py_isspace_def
  is_alpha_def is_digit_def is_scheme_chr_def endswith_def py_split_def

lemmas url_defs = urlparse_def split_scheme_def hostname_def validate_url_def is_private_ip_def
  gethostbyname_def checknetloc_def splitparams_def uses_params_def
  PRIVATE_IP_RANGES_def ip4_def net4_def net6_def mask_eq_exp_minus_1

lemmas env_defs = env0_def env_of_def response_of_def

section \<open>The plain-text parser: one chapter or an error\<close>

lemma length_split_ws_aux:
  "length (split_ws_aux cur s) = (if cur = [] then 0 else 1) + token_count (cur \<noteq> []) s"
  by (induction s arbitrary: cur) auto

lemma length_split_ws: "length (split_ws s) = token_count False s"
  by (simp add: split_ws_def length_split_ws_aux)

lemma strip_empty_iff: "strip s = [] \<longleftrightarrow> list_all py_isspace s"
proof -
  have "strip s = [] \<longleftrightarrow> dropWhile py_isspace s = []"
    by (auto simp: strip_def lstrip_def rstrip_def dest: set_dropWhileD hd_dropWhile)
       (metis dropWhile_eq_Nil_conv hd_dropWhile hd_in_set)
  then show ?thesis by (simp add: list_all_iff)
qed

lemma rstrip_prefix: "s = rstrip s @ rev (takeWhile py_isspace (rev s))"
  by (metis rev_append rev_rev_ident rstrip_def takeWhile_dropWhile_id)

lemma strip_no_outer_ws:
  assumes "strip s \<noteq> []"
  shows "\<not> py_isspace (hd (strip s)) \<and> \<not> py_isspace (last (strip s))"
proof -
  let ?t = "lstrip s"
  have t: "?t \<noteq> []" using assms by (auto simp: strip_def rstrip_def)
  have "hd (strip s) = hd ?t"
    using assms rstrip_prefix[of ?t] by (metis hd_append2 strip_def)
  moreover have "\<not> py_isspace (hd ?t)"
    using t hd_dropWhile[of py_isspace s] by (simp add: lstrip_def)
  moreover have "\<not> py_isspace (last (strip s))"
    using assms hd_dropWhile[of py_isspace "rev ?t"]
    by (simp add: strip_def rstrip_def last_rev)
  ultimately show ?thesis by simp
qed

lemma strip_decomposition:
  "\<exists>l r. s = l @ strip s @ r \<and> list_all py_isspace l \<and> list_all py_isspace r"
proof -
  let ?l = "takeWhile py_isspace s" and ?r = "rev (takeWhile py_isspace (rev (lstrip s)))"
  have "s = ?l @ lstrip s" by (simp add: lstrip_def)
  moreover have "lstrip s = strip s @ ?r" using rstrip_prefix[of "lstrip s"] by (simp add: strip_def)
  ultimately have "s = ?l @ strip s @ ?r" by simp
  moreover have "list_all py_isspace ?l" by (simp add: list_all_iff) (meson set_takeWhileD)
  moreover have "list_all py_isspace ?r" by (simp add: list_all_iff) (meson set_takeWhileD)
  ultimately show ?thesis by blast
qed

lemma parse_txt_file_eq:
  "parse_txt_file content =
     (let t = strip (decode_text content)
      in if t = [] then Inl (HTTPException 400 (ustr ''File is empty''))
         else Inr [\<lparr> title = ustr ''Untitled'', text = t, word_count = token_count False t \<rparr>])"
  by (simp add: parse_txt_file_def decode_text_def decode_utf8_def decode_latin1_def
      Chapter_init_def length_split_ws Let_def split: option.splits)

text \<open>
  C7. The plain-text parser decodes the input. When the decoded text is whitespace
  only (or empty), it fails with the error \<open>File is empty\<close>. Otherwise it returns
  exactly one chapter titled \<open>Untitled\<close>; its text is the decoded text without the
  whitespace at both ends (it is not empty, it neither starts nor ends with whitespace,
  and only whitespace was removed), and its word count is the number of
  whitespace-delimited tokens of that text.
\<close>

theorem parse_txt_file_one_chapter:
  "(list_all py_isspace (decode_text content) \<longrightarrow>
      parse_txt_file content = Inl (HTTPException 400 (ustr ''File is empty''))) \<and>
   (\<not> list_all py_isspace (decode_text content) \<longrightarrow>
      parse_txt_file content =
        Inr [\<lparr> title = ustr ''Untitled'', text = strip (decode_text content),
               word_count = token_count False (strip (decode_text content)) \<rparr>] \<and>
      strip (decode_text content) \<noteq> [] \<and>
      \<not> py_isspace (hd (strip (decode_text content))) \<and>
      \<not> py_isspace (last (strip (decode_text content))) \<and>
      (\<exists>l r. decode_text content = l @ strip (decode_text content) @ r \<and>
             list_all py_isspace l \<and> list_all py_isspace r))"
proof (cases "list_all py_isspace (decode_text content)")
  case True
  then have "strip (decode_text content) = []" by (simp add: strip_empty_iff)
  with True show ?thesis by (simp add: parse_txt_file_eq)
next
  case False
  then have ne: "strip (decode_text content) \<noteq> []" by (simp add: strip_empty_iff)
  then have "parse_txt_file content =
        Inr [\<lparr> title = ustr ''Untitled'', text = strip (decode_text content),
               word_count = token_count False (strip (decode_text content)) \<rparr>]"
    by (simp add: parse_txt_file_eq Let_def)
  with False ne strip_no_outer_ws[OF ne] strip_decomposition[of "decode_text content"]
  show ?thesis by simp
qed

theorem parse_txt_file_one_chapter_witness:
  "list_all py_isspace (decode_text [32, 10, 9]) \<and>
   parse_txt_file [32, 10, 9] = Inl (HTTPException 400 (ustr ''File is empty'')) \<and>
   \<not> list_all py_isspace (decode_text [104, 105, 32, 233, 97, 10]) \<and>
   parse_txt_file [104, 105, 32, 233, 97, 10] =
     Inr [\<lparr> title = ustr ''Untitled'', text = [104, 105, 32, 233, 97], word_count = 2 \<rparr>]"
proof -
  have a: "list_all py_isspace (decode_text [32, 10, 9])"
    by (simp add: decode_text_def py_isspace_def)
  have b: "\<not> list_all py_isspace (decode_text [104, 105, 32, 233, 97, 10])"
    by (simp add: decode_text_def py_isspace_def is_cont_def)
  have c: "strip (decode_text [104, 105, 32, 233, 97, 10]) = [104, 105, 32, 233, 97]"
    by (simp add: decode_text_def str_defs is_cont_def)
  have d: "token_count False [104, 105, 32, 233, 97] = 2"
    by (simp add: py_isspace_def)
  show ?thesis
    using a b parse_txt_file_one_chapter[of "[32, 10, 9]"]
      parse_txt_file_one_chapter[of "[104, 105, 32, 233, 97, 10]"]
    unfolding c d by simp
qed

section \<open>The validator\<close>

text \<open>
  C4. The validator fails closed. When the lookup of the URL's host name raises (the
  resolver reports an error, or the name has no IPv4 address), \<open>validate_url\<close> does
  not allow the URL, and it reports the message for private addresses unless the
  scheme was refused before.
\<close>

theorem validate_url_fails_closed:
  assumes "urlparse ev url = Inr p" and "hostname ev p = Some h"
    and "gethostbyname (dns ev) h = Inl e"
  shows "\<not> fst (validate_url ev url) \<and>
         (scheme p \<in> {ustr ''http'', ustr ''https''} \<longrightarrow>
            validate_url ev url =
              (False, ustr ''Private IPs and localhost are not allowed for security reasons''))"
  using assms by (simp add: validate_url_def is_private_ip_def)

theorem validate_url_fails_closed_witness:
  "gethostbyname dns_failing (ustr ''no-such-host.example'') =
     Inl (OtherError (ustr ''[Errno -2] Name or service not known'')) \<and>
   validate_url (env0 \<lparr> dns := dns_failing \<rparr>) (ustr ''http://no-such-host.example/a.txt'') =
     (False, ustr ''Private IPs and localhost are not allowed for security reasons'')"
proof -
  let ?ev = "env0 \<lparr> dns := dns_failing \<rparr>"
  let ?p = "\<lparr> scheme = ustr ''http'', netloc = ustr ''no-such-host.example'',
              path = ustr ''/a.txt'', params = [], query = [], fragment = [] \<rparr>"
  have a: "urlparse ?ev (ustr ''http://no-such-host.example/a.txt'') = Inr ?p"
    by (simp add: str_defs url_defs)
  have b: "hostname ?ev ?p = Some (ustr ''no-such-host.example'')"
    by (simp add: str_defs hostname_def)
  have c: "gethostbyname (dns ?ev) (ustr ''no-such-host.example'') =
     Inl (OtherError (ustr ''[Errno -2] Name or service not known''))"
    by (simp add: gethostbyname_def dns_failing_def)
  show ?thesis
    using validate_url_fails_closed[OF a b c] c by simp
qed

text \<open>
  C1. Two host names with an address in a blocked range that the validator allows.
  The first has the IPv6 loopback address and a public IPv4 address: the lookup is an
  IPv4 lookup, so the IPv6 ranges of the list are never matched. The second has a
  public and then a private IPv4 address: only the first address is tested.
\<close>

theorem validate_url_allows_blocked_address:
  "dns_dual_stack (ustr ''dual.example'') =
     Inr [IPv6Address 1, IPv4Address (ip4 93 184 216 34)] \<and>
   blocked (IPv6Address 1) \<and>
   validate_url (env0 \<lparr> dns := dns_dual_stack \<rparr>) (ustr ''http://dual.example/'') = (True, []) \<and>
   dns_public_private (ustr ''mixed.example'') =
     Inr [IPv4Address (ip4 93 184 216 34), IPv4Address (ip4 10 0 0 5)] \<and>
   blocked (IPv4Address (ip4 10 0 0 5)) \<and>
   validate_url (env0 \<lparr> dns := dns_public_private \<rparr>) (ustr ''http://mixed.example/'') = (True, [])"
  by (simp add: str_defs url_defs env0_def dns_dual_stack_def dns_public_private_def blocked_def)

text \<open>
  What the validator does refuse: a URL whose host name, lowered, is \<open>localhost\<close> or
  \<open>0.0.0.0\<close>, or for which the one address that the lookup returns lies in a blocked
  range.
\<close>

lemma validate_url_blocks_looked_up_address:
  assumes "urlparse ev url = Inr p" and "hostname ev p = Some h"
    and "lower ev h = ustr ''localhost'' \<or> lower ev h = ustr ''0.0.0.0'' \<or>
         (\<exists>a. gethostbyname (dns ev) h = Inr a \<and> blocked a)"
  shows "\<not> fst (validate_url ev url)"
  using assms by (auto simp: validate_url_def is_private_ip_def blocked_def)

lemma validate_url_blocks_intranet:
  "\<not> fst (validate_url (env0 \<lparr> dns := dns_intranet \<rparr>) (ustr ''HTTP://Intranet.Example./a.txt''))"
  by (simp add: str_defs url_defs env0_def dns_intranet_def)

section \<open>The endpoint and the temporary file\<close>

text \<open>
  C10. A request without a file whose JSON body maps \<open>url\<close> to the empty string
  gets the failure \<open>Missing input\<close>, in every environment and whatever its content
  type is: the empty URL counts as no URL, and the validator is not consulted.
\<close>

theorem empty_url_is_missing_input:
  assumes "request_json request = Inr (JObj members)"
    and "map_of (rev members) (ustr ''url'') = Some (JStr [])"
  shows "process_file ev fs request None =
           (fs, Inr (Failure (ustr ''Missing input'')
                       (ustr ''Please provide either a URL or a file upload'')))"
  using assms by (simp add: process_file_def url_request_of_def)

theorem empty_url_is_missing_input_witness:
  "process_file (env_of (response_of None [])) []
     \<lparr> headers_content_type = Some (ustr ''application/json''),
       request_json = Inr (JObj [(ustr ''url'', JStr [])]) \<rparr> None =
   ([], Inr (Failure (ustr ''Missing input'')
               (ustr ''Please provide either a URL or a file upload'')))"
  using empty_url_is_missing_input[of
      "\<lparr> headers_content_type = Some (ustr ''application/json''),
         request_json = Inr (JObj [(ustr ''url'', JStr [])]) \<rparr>"
      "[(ustr ''url'', JStr [])]" "env_of (response_of None [])" "[]"]
  by simp

text \<open>
  C3. A request in URL mode for an allowed URL, answered with the header
  \<open>Content-Length: 42, 42\<close>: \<open>int\<close> raises \<open>ValueError\<close> inside the fetch block,
  none of its \<open>except\<close> clauses catches it, and the exception leaves the handler
  instead of a failure response.
\<close>

theorem process_file_exception_escapes:
  "process_file (env_of (response_of (Some (ustr ''42, 42'')) [])) []
     \<lparr> headers_content_type = Some (ustr ''application/json''),
       request_json = Inr (JObj [(ustr ''url'', JStr (ustr ''http://example.com/a.txt''))]) \<rparr>
     None =
   ([], Inl (ValueError (ustr ''invalid literal for int() with base 10: '' @ [39] @
                         ustr ''42, 42'' @ [39])))"
proof -
  let ?ev = "env_of (response_of (Some (ustr ''42, 42'')) [])"
  have v: "validate_url ?ev (ustr ''http://example.com/a.txt'') = (True, [])"
    by (simp add: str_defs url_defs env_defs dns_public_def)
  have i: "py_int ?ev (ustr ''42, 42'') =
     Inl (ValueError (ustr ''invalid literal for int() with base 10: '' @ [39] @
                         ustr ''42, 42'' @ [39]))"
    by (simp add: py_int_def int_transform_def py_repr_def repr_chr_def ascii_space_def
        is_digit_def ustr_def)
  have f: "fetch ?ev (ustr ''http://example.com/a.txt'') =
     Inl (ValueError (ustr ''invalid literal for int() with base 10: '' @ [39] @
                         ustr ''42, 42'' @ [39]))"
    using i by (simp add: fetch_def fetch_body_def length_check_def env_defs ustr_def)
  have s: "strip (ustr ''http://example.com/a.txt'') = ustr ''http://example.com/a.txt''"
    by (simp add: str_defs)
  show ?thesis
    using v f by (simp add: process_file_def url_request_of_def s) (simp add: ustr_def)
qed

text \<open>
  C5. The EPUB parser on bytes that the reader rejects: the temporary file did not
  exist before the call and exists after it, next to the error that the parser raises.
\<close>

theorem parse_epub_file_leaves_temp_file:
  "\<not> file_exists [] 1 \<and>
   parse_epub_file (env_of (response_of None [])) [] [110, 111, 116, 32, 122, 105, 112] =
     ([(1, [110, 111, 116, 32, 122, 105, 112])],
      Inl (HTTPException 400 (ustr ''Failed to parse EPUB file: File is not a zip file''))) \<and>
   file_exists (fst (parse_epub_file (env_of (response_of None [])) []
                       [110, 111, 116, 32, 122, 105, 112])) 1"
  by (simp add: parse_epub_file_def NamedTemporaryFile_def env_defs epub_except_def ustr_def
      file_exists_def)

section \<open>The fetcher: the size ceiling\<close>























section \<open>The EPUB parser: accepted items and titles\<close>

lemma numbered_chapters_Nil: "numbered_chapters ev n [] = []"
  by (simp add: numbered_chapters_def accepted_items_def)

lemma numbered_chapters_Cons:
  "numbered_chapters ev n (item # items) =
     (if get_type item = ITEM_DOCUMENT \<and> 100 \<le> length (strip (item_text ev item))
      then Chapter_init (chapter_title (get_name item) n) (item_text ev item)
             # numbered_chapters ev (Suc n) items
      else numbered_chapters ev n items)"
  by (simp add: numbered_chapters_def accepted_items_def)

lemma epub_loop_numbered:
  "all_readable ev items \<Longrightarrow>
   epub_loop ev items chapters n = Inr (chapters @ numbered_chapters ev n items)"
proof (induction items arbitrary: chapters n)
  case Nil
  then show ?case by (simp add: numbered_chapters_Nil)
next
  case (Cons item items)
  from Cons.prems have rest: "all_readable ev items" by (simp add: all_readable_def)
  show ?case
  proof (cases "get_type item = ITEM_DOCUMENT")
    case False
    then show ?thesis using Cons.IH[OF rest] by (simp add: numbered_chapters_Cons)
  next
    case True
    with Cons.prems obtain tx where h: "document_text ev item = Inr tx"
      by (auto simp: all_readable_def)
    then have t: "item_text ev item = tx" by (simp add: item_text_def)
    show ?thesis
      using True h t Cons.IH[OF rest]
      by (simp add: numbered_chapters_Cons not_less)
  qed
qed

lemma epub_loop_Inr_all_readable:
  "epub_loop ev items chapters n = Inr r \<Longrightarrow> all_readable ev items"
proof (induction items arbitrary: chapters n)
  case Nil
  then show ?case by (simp add: all_readable_def)
next
  case (Cons item items)
  then show ?case
    by (auto simp: all_readable_def split: if_splits sum.splits)
qed

lemma walk_failure_None_iff: "walk_failure ev items = None \<longleftrightarrow> all_readable ev items"
proof (induction items)
  case Nil
  then show ?case by (simp add: walk_failure_def all_readable_def)
next
  case (Cons item items)
  show ?case
  proof (cases "get_type item = ITEM_DOCUMENT \<and> isl (document_text ev item)")
    case True
    then obtain e where "document_text ev item = Inl e" by (cases "document_text ev item") auto
    with True show ?thesis by (auto simp: walk_failure_def all_readable_def)
  next
    case False
    then have "walk_failure ev (item # items) = walk_failure ev items"
      by (auto simp: walk_failure_def)
    moreover from False have "all_readable ev (item # items) = all_readable ev items"
      by (cases "document_text ev item") (auto simp: all_readable_def)
    ultimately show ?thesis using Cons.IH by simp
  qed
qed

lemma epub_loop_walk_failure:
  "walk_failure ev items = Some e \<Longrightarrow> epub_loop ev items chapters n = Inl e"
proof (induction items arbitrary: chapters n)
  case Nil
  then show ?case by (simp add: walk_failure_def)
next
  case (Cons item items)
  show ?case
  proof (cases "get_type item = ITEM_DOCUMENT \<and> isl (document_text ev item)")
    case True
    then obtain e' where d: "document_text ev item = Inl e'"
      by (cases "document_text ev item") auto
    with True Cons.prems have "e' = e" by (simp add: walk_failure_def)
    with True d show ?thesis by simp
  next
    case False
    with Cons.prems have w: "walk_failure ev items = Some e" by (auto simp: walk_failure_def)
    from False show ?thesis
      using Cons.IH[OF w] by (cases "document_text ev item") auto
  qed
qed

lemma numbered_chapters_nth:
  "k < length (accepted_items ev items) \<Longrightarrow>
   numbered_chapters ev n items ! k =
     Chapter_init (chapter_title (get_name (accepted_items ev items ! k)) (n + k))
       (item_text ev (accepted_items ev items ! k))"
  by (simp add: numbered_chapters_def nth_enumerate_eq)

lemma parse_epub_file_result:
  "snd (parse_epub_file ev fs content) =
     (case read_epub ev content of
        Inl e \<Rightarrow> Inl (epub_except e)
      | Inr items \<Rightarrow>
          (case epub_loop ev items [] 1 of
             Inl e \<Rightarrow> Inl (epub_except e)
           | Inr chapters \<Rightarrow>
               if chapters = []
               then Inl (HTTPException 400 (ustr ''No readable content found in EPUB file''))
               else Inr chapters))"
  by (simp add: parse_epub_file_def NamedTemporaryFile_def Let_def split: sum.splits)

lemma utf8_dec_ascii: "\<forall>b\<in>set bs. b < 128 \<Longrightarrow> utf8_dec bs = Some bs"
  by (induction bs) simp_all

lemma linebreak_isspace: "is_linebreak c \<Longrightarrow> py_isspace c"
  by (auto simp: is_linebreak_def py_isspace_def)

lemma space_isspace: "py_isspace 32"
  by (simp add: py_isspace_def)

lemma splitlines_aux_plain:
  "\<forall>c\<in>set s. \<not> py_isspace c \<Longrightarrow>
   splitlines_aux cur s = (if cur = [] \<and> s = [] then [] else [rev cur @ s])"
proof (induction cur s rule: splitlines_aux.induct)
  case (1 cur)
  then show ?case by simp
next
  case (2 cur c)
  then have "\<not> is_linebreak c" using linebreak_isspace by auto
  then show ?case by simp
next
  case (3 cur c d cs)
  then have nl: "\<not> is_linebreak c" using linebreak_isspace by auto
  have "py_isspace 13" by (simp add: py_isspace_def)
  with 3 have c13: "c \<noteq> 13" by auto
  with nl have "splitlines_aux cur (c # d # cs) = splitlines_aux (c # cur) (d # cs)" by simp
  moreover have "splitlines_aux (c # cur) (d # cs) = [rev (c # cur) @ d # cs]"
    using 3 nl c13 by simp
  ultimately show ?case by simp
qed

lemma split_on_plain:
  "\<forall>c\<in>set s. \<not> py_isspace c \<Longrightarrow> split_on [32, 32] cur s = [rev cur @ s]"
proof (induction s arbitrary: cur)
  case Nil
  then show ?case by simp
next
  case (Cons c s)
  then have "c \<noteq> 32" using space_isspace by auto
  then have "split_on [32, 32] cur (c # s) = split_on [32, 32] (c # cur) s" by simp
  with Cons show ?case by simp
qed

lemma dropWhile_none: "\<forall>c\<in>set s. \<not> P c \<Longrightarrow> dropWhile P s = s"
  by (cases s) auto

lemma strip_plain: "\<forall>c\<in>set s. \<not> py_isspace c \<Longrightarrow> strip s = s"
  by (simp add: strip_def lstrip_def rstrip_def dropWhile_none)

lemma clean_up_plain:
  "\<forall>c\<in>set s. \<not> py_isspace c \<Longrightarrow> clean_up_whitespace s = s"
  by (cases "s = []")
     (simp_all add: clean_up_whitespace_def splitlines_def splitlines_aux_plain py_split_def
        split_on_plain strip_plain ustr_def)

lemma token_count_plain:
  "\<forall>c\<in>set s. \<not> py_isspace c \<Longrightarrow> token_count inw s = (if inw \<or> s = [] then 0 else 1)"
  by (induction s arbitrary: inw) auto

lemma document_text_replicate:
  "document_text (env_book items)
     \<lparr> get_type = ty, get_content = Inr (replicate n 97), get_name = nm \<rparr> = Inr (replicate n 97)"
proof -
  have "utf8_dec (map unat (replicate n (97 :: byte))) = Some (replicate n 97)"
    by (simp add: utf8_dec_ascii)
  moreover have "clean_up_whitespace (replicate n 97) = replicate n 97"
    by (rule clean_up_plain) (simp add: py_isspace_def)
  ultimately show ?thesis
    by (simp add: document_text_def decode_utf8_def extract_text_from_html_def env_book_def
        env0_def)
qed

lemma item_text_replicate:
  "item_text (env_book items)
     \<lparr> get_type = ty, get_content = Inr (replicate n 97), get_name = nm \<rparr> = replicate n 97"
  by (simp add: item_text_def document_text_replicate)

lemma strip_replicate: "strip (replicate n 97) = replicate n 97"
  by (rule strip_plain) (simp add: py_isspace_def)

lemma all_readable_two_items: "all_readable (env_book its) two_items"
  by (simp add: all_readable_def two_items_def short_item_def long_item_def
      document_text_replicate)

lemma accepted_two_items: "accepted_items (env_book its) two_items = [long_item]"
  by (simp add: accepted_items_def two_items_def short_item_def long_item_def
      item_text_replicate strip_replicate)

lemma chapter_long_item:
  "Chapter_init (chapter_title (get_name long_item) 1) (item_text (env_book its) long_item) =
     \<lparr> title = ustr ''Chapter 1'', text = replicate 500 97, word_count = 1 \<rparr>"
proof -
  have "token_count False (replicate 500 97) = 1"
    by (subst token_count_plain) (simp_all add: py_isspace_def)
  moreover have "chapter_title (Some (ustr ''ch2.xhtml'')) 1 = ustr ''Chapter 1''"
    by (simp add: chapter_title_def endswith_def ustr_def suffix_def str_of_nat.simps)
  ultimately show ?thesis
    by (simp add: long_item_def item_text_replicate Chapter_init_def length_split_ws)
qed

text \<open>
  C6. For a book that the reader opens and whose documents can all be read, the
  parser returns the chapters of the accepted items, in package order: the items that
  are documents and whose stripped normalized text has at least 100 characters (every
  other item is discarded). The chapter at position \<open>k\<close> (from 0) of the result has
  the text of the accepted item at position \<open>k\<close> and the title given by the title rule
  with the number \<open>k + 1\<close>: the item's name, or \<open>Chapter k+1\<close> when the name is
  absent, empty or ends in \<open>.html\<close> or \<open>.xhtml\<close>. With no accepted item the parser
  raises instead.
\<close>

theorem parse_epub_file_chapters:
  assumes "read_epub ev content = Inr items" and "all_readable ev items"
  shows "snd (parse_epub_file ev fs content) =
           (if accepted_items ev items = []
            then Inl (HTTPException 400 (ustr ''No readable content found in EPUB file''))
            else Inr (numbered_chapters ev 1 items)) \<and>
         length (numbered_chapters ev 1 items) = length (accepted_items ev items) \<and>
         (\<forall>k < length (accepted_items ev items).
            numbered_chapters ev 1 items ! k =
              Chapter_init
                (chapter_title (get_name (accepted_items ev items ! k)) (Suc k))
                (item_text ev (accepted_items ev items ! k))) \<and>
         (\<forall>name n. chapter_title name n =
            (if name = None \<or> name = Some [] \<or>
                (\<exists>t. name = Some t \<and> (endswith t (ustr ''.html'') \<or> endswith t (ustr ''.xhtml'')))
             then ustr ''Chapter '' @ str_of_nat n else the name))"
proof -
  have loop: "epub_loop ev items [] 1 = Inr (numbered_chapters ev 1 items)"
    using epub_loop_numbered[OF assms(2), of "[]" 1] by simp
  have e: "numbered_chapters ev 1 items = [] \<longleftrightarrow> accepted_items ev items = []"
    by (cases "accepted_items ev items") (simp_all add: numbered_chapters_def)
  have r: "snd (parse_epub_file ev fs content) =
           (if accepted_items ev items = []
            then Inl (HTTPException 400 (ustr ''No readable content found in EPUB file''))
            else Inr (numbered_chapters ev 1 items))"
    using assms(1) loop e by (simp add: parse_epub_file_result)
  have l: "length (numbered_chapters ev 1 items) = length (accepted_items ev items)"
    by (simp add: numbered_chapters_def)
  have t: "\<forall>name n. chapter_title name n =
            (if name = None \<or> name = Some [] \<or>
                (\<exists>t. name = Some t \<and> (endswith t (ustr ''.html'') \<or> endswith t (ustr ''.xhtml'')))
             then ustr ''Chapter '' @ str_of_nat n else the name)"
    by (auto simp: chapter_title_def split: option.splits)
  show ?thesis using r l t by (simp add: numbered_chapters_nth)
qed

theorem parse_epub_file_chapters_witness:
  "read_epub (env_book two_items) [] = Inr two_items \<and> all_readable (env_book two_items) two_items \<and>
   accepted_items (env_book two_items) two_items = [long_item] \<and>
   snd (parse_epub_file (env_book two_items) [] []) =
     Inr [\<lparr> title = ustr ''Chapter 1'', text = replicate 500 97, word_count = 1 \<rparr>]"
proof -
  have a: "read_epub (env_book two_items) [] = Inr two_items" by (simp add: env_book_def)
  have n: "numbered_chapters (env_book two_items) 1 two_items =
             [\<lparr> title = ustr ''Chapter 1'', text = replicate 500 97, word_count = 1 \<rparr>]"
    using numbered_chapters_nth[of 0 "env_book two_items" two_items 1] chapter_long_item
    by (simp add: numbered_chapters_def accepted_two_items)
  show ?thesis
    using parse_epub_file_chapters[OF a all_readable_two_items, of "[]"] a all_readable_two_items
    by (simp add: accepted_two_items n[simplified])
qed

text \<open>
  C8 does not hold as the specification states it, in the message: for a book with no
  readable item the error says \<open>No readable content found in EPUB file\<close>.
\<close>

theorem parse_epub_file_message_counterexample:
  "snd (parse_epub_file (env_book []) [] []) =
     Inl (HTTPException 400 (ustr ''No readable content found in EPUB file'')) \<and>
   snd (parse_epub_file (env_book []) [] []) \<noteq>
     Inl (HTTPException 400 (ustr ''No readable content found''))"
  by (simp add: parse_epub_file_result env_book_def ustr_def)

text \<open>
  C8, with the message of the code. When the reader opens the book, every document
  can be read and no item is accepted, the parser raises the error
  \<open>No readable content found in EPUB file\<close>. Any failure while opening the archive
  (the reader raises) or while walking it (the text of a document cannot be obtained)
  is wrapped: the parser raises the error whose message is
  \<open>Failed to parse EPUB file: \<close> followed by the message of that exception (an
  \<open>HTTPException\<close> is raised again as it is). These are all the failures: a book whose
  documents cannot all be read has a failure of walking. And whenever the parser
  returns chapters, the list is not empty and is the complete list of a book that was
  opened and walked to its end.
\<close>

theorem parse_epub_file_failures:
  "(read_epub ev content = Inr items \<and> all_readable ev items \<and> accepted_items ev items = [] \<longrightarrow>
      snd (parse_epub_file ev fs content) =
        Inl (HTTPException 400 (ustr ''No readable content found in EPUB file''))) \<and>
   (read_epub ev content = Inl e \<or>
    (read_epub ev content = Inr items \<and> walk_failure ev items = Some e) \<longrightarrow>
      snd (parse_epub_file ev fs content) =
        Inl (if \<exists>c d. e = HTTPException c d then e
             else HTTPException 400 (ustr ''Failed to parse EPUB file: '' @ str_of_exn e))) \<and>
   (\<not> all_readable ev items \<longrightarrow> (\<exists>e'. walk_failure ev items = Some e')) \<and>
   (snd (parse_epub_file ev fs content) = Inr chapters \<longrightarrow>
      chapters \<noteq> [] \<and>
      (\<exists>its. read_epub ev content = Inr its \<and> all_readable ev its \<and>
             chapters = numbered_chapters ev 1 its))"
proof (intro conjI impI)
  assume "read_epub ev content = Inr items \<and> all_readable ev items \<and>
      accepted_items ev items = []"
  then show "snd (parse_epub_file ev fs content) =
        Inl (HTTPException 400 (ustr ''No readable content found in EPUB file''))"
    using epub_loop_numbered[of ev items "[]" 1]
    by (simp add: parse_epub_file_result numbered_chapters_def)
next
  assume a: "read_epub ev content = Inl e \<or>
    (read_epub ev content = Inr items \<and> walk_failure ev items = Some e)"
  have x: "epub_except e = (if \<exists>c d. e = HTTPException c d then e
             else HTTPException 400 (ustr ''Failed to parse EPUB file: '' @ str_of_exn e))"
    by (cases e) (simp_all add: epub_except_def)
  from a have "snd (parse_epub_file ev fs content) = Inl (epub_except e)"
    using epub_loop_walk_failure[of ev items e "[]" 1]
    by (auto simp: parse_epub_file_result)
  then show "snd (parse_epub_file ev fs content) =
        Inl (if \<exists>c d. e = HTTPException c d then e
             else HTTPException 400 (ustr ''Failed to parse EPUB file: '' @ str_of_exn e))"
    by (simp only: x)
next
  assume "\<not> all_readable ev items"
  then show "\<exists>e'. walk_failure ev items = Some e'"
    using walk_failure_None_iff[of ev items] by (cases "walk_failure ev items") auto
next
  assume r: "snd (parse_epub_file ev fs content) = Inr chapters"
  then show "chapters \<noteq> []"
    by (auto simp: parse_epub_file_result split: sum.splits if_splits)
next
  assume r: "snd (parse_epub_file ev fs content) = Inr chapters"
  then obtain its where i: "read_epub ev content = Inr its"
      "epub_loop ev its [] 1 = Inr chapters"
    by (auto simp: parse_epub_file_result split: sum.splits if_splits)
  from i(2) have d: "all_readable ev its" by (rule epub_loop_Inr_all_readable)
  from epub_loop_numbered[OF d, of "[]" 1] i(2)
  have "chapters = numbered_chapters ev 1 its" by simp
  with i(1) d show "\<exists>its. read_epub ev content = Inr its \<and> all_readable ev its \<and>
             chapters = numbered_chapters ev 1 its" by blast
qed

lemma two_items_parsed:
  "snd (parse_epub_file (env_book two_items) fs content) =
     Inr [\<lparr> title = ustr ''Chapter 1'', text = replicate 500 97, word_count = 1 \<rparr>]"
proof -
  have "numbered_chapters (env_book two_items) 1 two_items =
             [\<lparr> title = ustr ''Chapter 1'', text = replicate 500 97, word_count = 1 \<rparr>]"
    using numbered_chapters_nth[of 0 "env_book two_items" two_items 1] chapter_long_item
    by (simp add: numbered_chapters_def accepted_two_items)
  then show ?thesis
    using epub_loop_numbered[OF all_readable_two_items, of two_items "[]" 1]
    by (simp add: parse_epub_file_result env_book_def)
qed

lemma hex_255: "hex 2 255 = ustr ''ff''"
proof -
  have "hex (Suc (Suc 0)) 255 = ustr ''ff''"
    by (simp add: hex_digit_def ustr_def)
  then show ?thesis by (simp add: numeral_2_eq_2)
qed

lemma utf8_message_255:
  "utf8_message [255] = [39] @ ustr ''utf-8'' @ [39] @ ustr '' codec can'' @ [39] @
            ustr ''t decode byte 0xff in position 0: invalid start byte''"
proof -
  have e: "utf8_error 0 [255] = Some (0, 1, 255, InvalidStart)" by simp
  have z: "str_of_nat 0 = ustr ''0''" by (simp add: str_of_nat.simps ustr_def)
  show ?thesis unfolding utf8_message_def e by (simp add: hex_255 z) (simp add: ustr_def)
qed

lemma document_text_bad_item:
  "document_text ev bad_item =
     Inl (UnicodeDecodeError ([39] @ ustr ''utf-8'' @ [39] @ ustr '' codec can'' @ [39] @
            ustr ''t decode byte 0xff in position 0: invalid start byte''))"
proof -
  have u: "map unat [255 :: byte] = [255]" by simp
  have d: "utf8_dec [255] = None" by simp
  have "decode_utf8 [255] = Inl (UnicodeDecodeError (utf8_message [255]))"
    unfolding decode_utf8_def u d by simp
  then show ?thesis
    unfolding utf8_message_255 by (simp add: document_text_def bad_item_def)
qed

lemma document_text_broken_item:
  "document_text ev broken_item = Inl (OtherError (ustr ''Document is empty''))"
  by (simp add: document_text_def broken_item_def)

lemma document_text_short_item:
  "document_text (env_book its) short_item = Inr (replicate 50 97)"
  by (simp add: short_item_def document_text_replicate)

theorem parse_epub_file_failures_witness:
  "snd (parse_epub_file (env_book [short_item]) [] []) =
     Inl (HTTPException 400 (ustr ''No readable content found in EPUB file'')) \<and>
   snd (parse_epub_file (env_of (response_of None [])) [] []) =
     Inl (HTTPException 400 (ustr ''Failed to parse EPUB file: File is not a zip file'')) \<and>
   snd (parse_epub_file (env_book [short_item, bad_item, long_item]) [] []) =
     Inl (HTTPException 400 (ustr ''Failed to parse EPUB file: '' @ [39] @ ustr ''utf-8'' @ [39] @
            ustr '' codec can'' @ [39] @
            ustr ''t decode byte 0xff in position 0: invalid start byte'')) \<and>
   snd (parse_epub_file (env_book [broken_item, long_item]) [] []) =
     Inl (HTTPException 400 (ustr ''Failed to parse EPUB file: Document is empty'')) \<and>
   (\<exists>its. read_epub (env_book two_items) [] = Inr its \<and> all_readable (env_book two_items) its \<and>
      [\<lparr> title = ustr ''Chapter 1'', text = replicate 500 97, word_count = 1 \<rparr>] =
        numbered_chapters (env_book two_items) 1 its)"
proof -
  let ?b1 = "[short_item, bad_item, long_item]" and ?b2 = "[broken_item, long_item]"
  let ?e1 = "UnicodeDecodeError ([39] @ ustr ''utf-8'' @ [39] @ ustr '' codec can'' @ [39] @
            ustr ''t decode byte 0xff in position 0: invalid start byte'')"
  let ?e2 = "OtherError (ustr ''Document is empty'')"
  let ?e3 = "OtherError (ustr ''File is not a zip file'')"
  have a1: "read_epub (env_book [short_item]) [] = Inr [short_item] \<and>
      all_readable (env_book [short_item]) [short_item] \<and>
      accepted_items (env_book [short_item]) [short_item] = []"
    by (simp add: all_readable_def accepted_items_def item_text_def document_text_short_item
        strip_replicate) (simp add: env_book_def short_item_def)
  have a2: "read_epub (env_of (response_of None [])) [] = Inl ?e3 \<or>
      (read_epub (env_of (response_of None [])) [] = Inr [] \<and>
       walk_failure (env_of (response_of None [])) [] = Some ?e3)"
    by (simp add: env_defs)
  have a3: "read_epub (env_book ?b1) [] = Inl ?e1 \<or>
      (read_epub (env_book ?b1) [] = Inr ?b1 \<and> walk_failure (env_book ?b1) ?b1 = Some ?e1)"
    by (simp add: walk_failure_def document_text_bad_item document_text_short_item)
       (simp add: env_book_def short_item_def bad_item_def long_item_def)
  have a4: "read_epub (env_book ?b2) [] = Inl ?e2 \<or>
      (read_epub (env_book ?b2) [] = Inr ?b2 \<and> walk_failure (env_book ?b2) ?b2 = Some ?e2)"
    by (simp add: walk_failure_def document_text_broken_item)
       (simp add: env_book_def broken_item_def long_item_def)
  have r1: "snd (parse_epub_file (env_book [short_item]) [] []) =
     Inl (HTTPException 400 (ustr ''No readable content found in EPUB file''))"
    by (rule parse_epub_file_failures[where ev = "env_book [short_item]" and content = "[]"
        and items = "[short_item]" and fs = "[]", THEN conjunct1, THEN mp, OF a1])
  have "snd (parse_epub_file (env_of (response_of None [])) [] []) =
     Inl (if \<exists>c d. ?e3 = HTTPException c d then ?e3
          else HTTPException 400 (ustr ''Failed to parse EPUB file: '' @ str_of_exn ?e3))"
    by (rule parse_epub_file_failures[where ev = "env_of (response_of None [])" and content = "[]"
        and items = "[]" and e = ?e3 and fs = "[]",
        THEN conjunct2, THEN conjunct1, THEN mp, OF a2])
  then have r2: "snd (parse_epub_file (env_of (response_of None [])) [] []) =
     Inl (HTTPException 400 (ustr ''Failed to parse EPUB file: File is not a zip file''))"
    by (simp add: ustr_def)
  have "snd (parse_epub_file (env_book ?b1) [] []) =
     Inl (if \<exists>c d. ?e1 = HTTPException c d then ?e1
          else HTTPException 400 (ustr ''Failed to parse EPUB file: '' @ str_of_exn ?e1))"
    by (rule parse_epub_file_failures[where ev = "env_book ?b1" and content = "[]"
        and items = ?b1 and e = ?e1 and fs = "[]",
        THEN conjunct2, THEN conjunct1, THEN mp, OF a3])
  then have r3: "snd (parse_epub_file (env_book ?b1) [] []) =
     Inl (HTTPException 400 (ustr ''Failed to parse EPUB file: '' @ [39] @ ustr ''utf-8'' @ [39] @
            ustr '' codec can'' @ [39] @
            ustr ''t decode byte 0xff in position 0: invalid start byte''))"
    by simp
  have "snd (parse_epub_file (env_book ?b2) [] []) =
     Inl (if \<exists>c d. ?e2 = HTTPException c d then ?e2
          else HTTPException 400 (ustr ''Failed to parse EPUB file: '' @ str_of_exn ?e2))"
    by (rule parse_epub_file_failures[where ev = "env_book ?b2" and content = "[]"
        and items = ?b2 and e = ?e2 and fs = "[]",
        THEN conjunct2, THEN conjunct1, THEN mp, OF a4])
  then have r4: "snd (parse_epub_file (env_book ?b2) [] []) =
     Inl (HTTPException 400 (ustr ''Failed to parse EPUB file: Document is empty''))"
    by (simp add: ustr_def)
  have r5: "\<exists>its. read_epub (env_book two_items) [] = Inr its \<and>
      all_readable (env_book two_items) its \<and>
      [\<lparr> title = ustr ''Chapter 1'', text = replicate 500 97, word_count = 1 \<rparr>] =
        numbered_chapters (env_book two_items) 1 its"
    by (rule parse_epub_file_failures[where ev = "env_book two_items" and content = "[]"
        and fs = "[]", THEN conjunct2, THEN conjunct2, THEN conjunct2, THEN mp,
        OF two_items_parsed, THEN conjunct2])
  show ?thesis using r1 r2 r3 r4 r5 by (intro conjI)
qed

section \<open>The filename of a URL\<close>

lemma takeWhile_notin: "c \<notin> set s \<Longrightarrow> takeWhile (\<lambda>x. x \<noteq> c) s = s"
  by (induction s) auto

lemma split_on_not_Nil: "split_on sep cur s \<noteq> []"
  by (induction sep cur s rule: split_on.induct) auto

lemma hd_split_on_chr: "hd (split_on [c] cur s) = rev cur @ takeWhile (\<lambda>x. x \<noteq> c) s"
  by (induction s arbitrary: cur) auto

lemma last_split_on_chr:
  "last (split_on [c] cur s) =
     (if c \<in> set s then rev (takeWhile (\<lambda>x. x \<noteq> c) (rev s)) else rev cur @ s)"
proof (induction s arbitrary: cur)
  case Nil
  then show ?case by simp
next
  case (Cons x s)
  show ?case
  proof (cases "x = c")
    case True
    then have "last (split_on [c] cur (x # s)) = last (split_on [c] [] s)"
      by (simp add: split_on_not_Nil)
    also have "\<dots> = (if c \<in> set s then rev (takeWhile (\<lambda>x. x \<noteq> c) (rev s)) else s)"
      using Cons.IH[of "[]"] by simp
    also have "\<dots> = rev (takeWhile (\<lambda>x. x \<noteq> c) (rev (x # s)))"
      using True by (auto simp: takeWhile_append)
    finally show ?thesis using True by simp
  next
    case False
    then have "last (split_on [c] cur (x # s)) = last (split_on [c] (x # cur) s)" by simp
    with Cons.IH[of "x # cur"] False show ?thesis by (auto simp: takeWhile_append)
  qed
qed

lemma url_filename_eq:
  "url_filename url =
     Inr (takeWhile (\<lambda>c. c \<noteq> 63) (rev (takeWhile (\<lambda>c. c \<noteq> 47) (rev url))))"
proof -
  have s: "ustr ''/'' = [47]" "ustr ''?'' = [63]" by (simp_all add: ustr_def)
  have "last (split_on [47] [] url) = rev (takeWhile (\<lambda>c. c \<noteq> 47) (rev url))"
    by (simp add: last_split_on_chr takeWhile_notin)
  then show ?thesis
    using hd_split_on_chr[of 63 "[]"]
    by (simp add: url_filename_def last_item_def first_item_def py_split_def s split_on_not_Nil
        split: list.splits) (metis list.sel(1))
qed

text \<open>
  The derivation in closed form, and what it gives for a URL that ends in \<open>/name\<close>
  or in \<open>/name?query\<close> when \<open>name\<close> holds no \<open>/\<close> and no \<open>?\<close> and \<open>query\<close> holds
  no \<open>/\<close>: the filename is \<open>name\<close>.
\<close>

lemma url_filename_plain:
  assumes "47 \<notin> set name" and "63 \<notin> set name" and "47 \<notin> set qry"
  shows "url_filename (pre @ [47] @ name) = Inr name"
    and "url_filename (pre @ [47] @ name @ [63] @ qry) = Inr name"
proof -
  have a: "\<And>s. 47 \<notin> set s \<Longrightarrow> takeWhile (\<lambda>c. c \<noteq> 47) (rev s @ 47 # rev pre) = rev s"
    by (simp add: takeWhile_append takeWhile_notin)
  have b: "takeWhile (\<lambda>c. c \<noteq> 63) (name @ 63 # qry) = name"
    using assms(2) by (simp add: takeWhile_append takeWhile_notin)
  have c: "takeWhile (\<lambda>c. c \<noteq> 63) name = name"
    using assms(2) by (simp add: takeWhile_notin)
  show "url_filename (pre @ [47] @ name) = Inr name"
    using a[of name] assms c by (simp add: url_filename_eq)
  show "url_filename (pre @ [47] @ name @ [63] @ qry) = Inr name"
    using a[of "name @ 63 # qry"] assms b by (simp add: url_filename_eq)
qed

text \<open>
  C9. Two URLs that the validator allows and whose final path segment is
  \<open>book.txt\<close>. For the first, whose query holds a \<open>/\<close>, the filename handed to the
  format detection is \<open>b\<close>, a piece of the query; when the server sends no content
  type the detection refuses \<open>b\<close> as an unsupported format, while it takes
  \<open>book.txt\<close> for plain text. For the second the fragment stays in the filename, which
  is \<open>book.txt#intro\<close>. The raw URL is cut at its last \<open>/\<close> before the query is cut
  off, and the fragment is never cut off.
\<close>

theorem url_filename_keeps_query_and_fragment:
  "validate_url env0 (ustr ''http://example.com/book.txt?ref=a/b'') = (True, []) \<and>
   final_path_segment env0 (ustr ''http://example.com/book.txt?ref=a/b'') =
     Some (ustr ''book.txt'') \<and>
   url_filename (ustr ''http://example.com/book.txt?ref=a/b'') = Inr (ustr ''b'') \<and>
   detect_format env0 (ustr ''b'') None =
     Inl (HTTPException 400 (ustr ''Unsupported file format. Supported: .txt, .epub'')) \<and>
   detect_format env0 (ustr ''book.txt'') None = Inr (ustr ''txt'') \<and>
   validate_url env0 (ustr ''http://example.com/book.txt#intro'') = (True, []) \<and>
   final_path_segment env0 (ustr ''http://example.com/book.txt#intro'') =
     Some (ustr ''book.txt'') \<and>
   url_filename (ustr ''http://example.com/book.txt#intro'') = Inr (ustr ''book.txt#intro'')"
  by (simp add: url_filename_eq final_path_segment_def detect_format_def str_defs url_defs
      env0_def dns_public_def suffix_def)

section \<open>The paths that do clean up and respond\<close>

text \<open>
  Two facts about the paths on which the endpoint and the EPUB parser do what is
  expected of them. The temporary file is removed whenever the book is read and walked
  to its end, and it is left behind whenever the reader raises. And without a usable
  URL (upload mode or no input) the handler always returns a dictionary: only the
  fetch block of the URL mode lets an exception out.
\<close>

lemma fold_max_ge: "x \<in> set xs \<Longrightarrow> x \<le> fold max xs (a::nat)"
proof -
  assume "x \<in> set xs"
  then have "x \<le> Max (set (a # xs))" by simp
  then show ?thesis by (simp only: Max.set_eq_fold)
qed

lemma unlink_temp_file:
  "NamedTemporaryFile fs content = (fs1, p) \<Longrightarrow> \<not> file_exists fs p \<and> unlink p fs1 = fs"
proof -
  assume a: "NamedTemporaryFile fs content = (fs1, p)"
  then have p: "p = Suc (fold max (map fst fs) 0)" and f: "fs1 = (p, content) # fs"
    by (auto simp: NamedTemporaryFile_def Let_def)
  have n: "\<forall>q\<in>set (map fst fs). q \<noteq> p"
    using fold_max_ge[of _ "map fst fs" 0] p by fastforce
  then have "filter (\<lambda>f. fst f \<noteq> p) fs = fs" by (auto simp: filter_id_conv)
  with n f show ?thesis by (auto simp: unlink_def file_exists_def)
qed

lemma parse_epub_file_cleans_up:
  assumes "read_epub ev content = Inr items" and "all_readable ev items"
  shows "fst (parse_epub_file ev fs content) = fs"
proof -
  obtain fs1 p where t: "NamedTemporaryFile fs content = (fs1, p)"
    by (cases "NamedTemporaryFile fs content")
  from epub_loop_numbered[OF assms(2), of "[]" 1] assms(1) t unlink_temp_file[OF t]
  show ?thesis by (simp add: parse_epub_file_def)
qed

lemma parse_epub_file_leak:
  assumes "read_epub ev content = Inl e"
  shows "\<exists>p. \<not> file_exists fs p \<and> file_exists (fst (parse_epub_file ev fs content)) p"
proof -
  obtain fs1 p where t: "NamedTemporaryFile fs content = (fs1, p)"
    by (cases "NamedTemporaryFile fs content")
  then have "file_exists fs1 p" by (auto simp: NamedTemporaryFile_def Let_def file_exists_def)
  with assms t unlink_temp_file[OF t] show ?thesis
    by (intro exI[of _ p]) (simp add: parse_epub_file_def)
qed

lemma detect_format_error:
  "detect_format ev f ct = Inl e \<Longrightarrow> \<exists>c d. e = HTTPException c d"
  by (auto simp: detect_format_def Let_def split: if_splits option.splits)

lemma process_file_upload_responds:
  assumes "url_request_of request = None \<or> url_request_of request = Some []"
  shows "\<exists>fs' d. process_file ev fs request upload = (fs', Inr d)"
proof (cases upload)
  case None
  with assms show ?thesis by (auto simp: process_file_def)
next
  case (Some f)
  show ?thesis
  proof (cases "detect_format ev (filename f) (content_type f)")
    case (Inl e)
    with detect_format_error[OF Inl] Some assms show ?thesis
      by (auto simp: process_file_def Let_def)
  next
    case (Inr fmt)
    with Some assms show ?thesis
      by (auto simp: process_file_def Let_def split: prod.splits)
  qed
qed

end
